theory Spec2Isabelle
  imports Complex_Main "HOL-Library.List_Lexorder" "HOL-Library.Char_ord"
begin

section \<open>Go values, errors and the record model\<close>

text \<open>
  Go strings are byte sequences and are modelled as \<open>string\<close>.  An \<open>error\<close> value keeps
  the message the source builds: \<open>New\<close> is \<open>errors.New\<close> (and \<open>fmt.Errorf\<close> without
  \<open>%w\<close>), \<open>Wrap p e\<close> is \<open>fmt.Errorf(p + ": %w", e)\<close>.  The remaining constructors are
  the errors that come out of the store client, of the external packages, and a
  run-time panic.
\<close>

datatype error =
    New string
  | Wrap string error
  | ConditionalCheckFailedException
  | ServiceError string
  | LibError string
  | Panic string

text \<open>\<open>errors.As(err, &conditionalCheckFailedException)\<close>: search the wrap chain.\<close>

fun errors_As_ConditionalCheckFailed :: "error \<Rightarrow> bool" where
  "errors_As_ConditionalCheckFailed ConditionalCheckFailedException = True"
| "errors_As_ConditionalCheckFailed (Wrap p e) = errors_As_ConditionalCheckFailed e"
| "errors_As_ConditionalCheckFailed e = False"

text \<open>
  A finite \<open>float64\<close> is \<open>m * 2 ^ e\<close>; the code never computes with one, it only tests
  the dynamic type of a value and hands the number to \<open>fmt\<close>.
\<close>

datatype float64 = Float64 int int

text \<open>
  The dynamic values an \<open>interface{}\<close> holds in this program: what \<open>encoding/json\<close> and
  the DynamoDB attribute decoder produce, and the \<open>int64\<close> timestamps the model writes.
\<close>

datatype go_value =
    GoString string
  | GoInt64 int
  | GoFloat64 float64
  | GoBool bool
  | GoNil
  | GoSlice "go_value list"
  | GoMap "(string \<times> go_value) list"

type_synonym gomap = "string \<rightharpoonup> go_value"

text \<open>
  \<open>types.AttributeValue\<close>: the string and number members carry their \<open>Value\<close> field (a
  Go string in both cases); the other members (B, BOOL, BS, L, M, NS, NULL, SS) are
  kept by tag and content.
\<close>

datatype AttributeValue =
    AttributeValueMemberS string
  | AttributeValueMemberN string
  | AttributeValueMemberBOOL bool
  | AttributeValueMemberNULL
  | AttributeValueMemberL "AttributeValue list"
  | AttributeValueMemberM "(string \<times> AttributeValue) list"
  | AttributeValueMemberOther string

type_synonym item = "string \<rightharpoonup> AttributeValue"

text \<open>A compiled JSON schema, identified by the document it was compiled from.\<close>

datatype Schema = CompiledSchema string

text \<open>
  Go maps are reference objects.  The heap holds every allocated
  \<open>map[string]interface{}\<close>; a map variable is \<open>None\<close> (the nil map) or \<open>Some r\<close> with
  \<open>r\<close> an index into the heap.
\<close>

type_synonym ref = nat
type_synonym heap = "gomap list"

definition deref :: "heap \<Rightarrow> ref option \<Rightarrow> gomap" where
  "deref h m = (case m of None \<Rightarrow> Map.empty | Some r \<Rightarrow> if r < length h then h ! r else Map.empty)"

definition make_map :: "heap \<Rightarrow> ref \<times> heap" where
  "make_map h = (length h, h @ [Map.empty])"

text \<open>\<open>models.DynamicUnit\<close> (the schema-driven variant).\<close>

record DynamicUnit =
  ID :: string
  AccountID :: string
  UnitType :: string
  CreatedAt :: int
  UpdatedAt :: int
  DeletedAt :: int
  Data :: "ref option"
  schema :: "Schema option"

text \<open>\<open>GenerateID\<close>: the argument is the value of \<open>uuid.New().String()\<close>.\<close>

definition GenerateID :: "string \<Rightarrow> DynamicUnit \<Rightarrow> DynamicUnit" where
  "GenerateID uuid du = du\<lparr>ID := uuid\<rparr>"

text \<open>\<open>SetTimestamps\<close>, \<open>MarkDeleted\<close>: the argument is \<open>time.Now().Unix()\<close>.\<close>

definition SetTimestamps :: "int \<Rightarrow> DynamicUnit \<Rightarrow> DynamicUnit" where
  "SetTimestamps now du =
     (let du1 = (if CreatedAt du = 0 then du\<lparr>CreatedAt := now\<rparr> else du)
      in du1\<lparr>UpdatedAt := now\<rparr>)"

definition IsDeleted :: "DynamicUnit \<Rightarrow> bool" where
  "IsDeleted du = (DeletedAt du > 0)"

definition MarkDeleted :: "int \<Rightarrow> DynamicUnit \<Rightarrow> DynamicUnit" where
  "MarkDeleted now du = du\<lparr>DeletedAt := now\<rparr>"

definition GetSortKey :: "DynamicUnit \<Rightarrow> string" where
  "GetSortKey du = UnitType du @ ''#'' @ ID du"

text \<open>
  \<open>strings.SplitN(s, sep, 2)\<close> for a one-byte separator: the whole string when the
  separator does not occur, else the text before its first occurrence and the rest.
\<close>

definition SplitN2 :: "char \<Rightarrow> string \<Rightarrow> string list" where
  "SplitN2 sep s =
     (case dropWhile (\<lambda>c. c \<noteq> sep) s of
        [] \<Rightarrow> [s]
      | _ # rest \<Rightarrow> [takeWhile (\<lambda>c. c \<noteq> sep) s, rest])"

text \<open>
  Modelled from the spec: the fixed-schema \<open>models.Unit\<close> of the repository variant whose
  sort key is \<open>id#unitType\<close>.  The struct and its methods are not among the sources (the
  \<open>unit.go\<close> at hand belongs to the older variant keyed by location); the spec gives the
  key order (\<open><id>#<discriminator>\<close>), \<open>isDeleted\<close> (\<open>deletedAt > 0\<close>), \<open>markDeleted\<close> and
  \<open>touchTimestamps\<close>, and the repository tests give \<open>GetSortKey\<close>.  The descriptive
  attributes, all strings, are kept as one map from attribute name to value.
\<close>

record Unit =
  u_ID :: string
  u_AccountID :: string
  u_UnitType :: string
  u_SortKey :: string
  u_CreatedAt :: int
  u_UpdatedAt :: int
  u_DeletedAt :: int
  u_Attributes :: "string \<rightharpoonup> string"

definition GetSortKey_fixed :: "Unit \<Rightarrow> string" where
  "GetSortKey_fixed u = u_ID u @ ''#'' @ u_UnitType u"

definition SetTimestamps_fixed :: "int \<Rightarrow> Unit \<Rightarrow> Unit" where
  "SetTimestamps_fixed now u =
     (let u1 = (if u_CreatedAt u = 0 then u\<lparr>u_CreatedAt := now\<rparr> else u)
      in u1\<lparr>u_UpdatedAt := now\<rparr>)"

definition IsDeleted_fixed :: "Unit \<Rightarrow> bool" where
  "IsDeleted_fixed u = (u_DeletedAt u > 0)"

definition MarkDeleted_fixed :: "int \<Rightarrow> Unit \<Rightarrow> Unit" where
  "MarkDeleted_fixed now u = u\<lparr>u_DeletedAt := now\<rparr>"

section \<open>External packages and embedded resources\<close>

text \<open>
  The functions below belong to packages outside the repository (the Go standard library,
  the AWS SDK attribute codec, the JSON-schema validator) and to the embedded schema
  document.  They are parameters of the model: every repository function takes an
  \<open>env\<close>, and a theorem says which behaviour of a package it relies on.

  \<^item> \<open>json_Marshal\<close> is \<open>json.Marshal\<close> of a \<open>map[string]interface{}\<close>, \<open>json_Unmarshal\<close>
    is \<open>json.Unmarshal\<close> into a \<open>map[string]interface{}\<close> variable (JSON \<open>null\<close> leaves the
    variable nil, which ranges like the empty map).
  \<^item> \<open>fmt_Sprintf_0f\<close> is \<open>fmt.Sprintf("%.0f", v)\<close>, \<open>fmt_Sprintf_v\<close> and
    \<open>fmt_Sprintf_v_av\<close> are \<open>fmt.Sprintf("%v", v)\<close> on a decoded JSON value and on an
    attribute value.
  \<^item> \<open>attributevalue_MarshalMap\<close> and \<open>attributevalue_UnmarshalMap\<close> convert between a
    \<open>map[string]interface{}\<close> and a DynamoDB item; \<open>attributevalue_MarshalUnit\<close> and
    \<open>attributevalue_UnmarshalUnit\<close> are the same two functions on a \<open>models.Unit\<close> struct.
  \<^item> \<open>gojsonschema_Validate\<close> returns the list of violated constraints (empty when the
    document is valid) or the validator's own error.
\<close>

record env =
  base64_EncodeToString :: "string \<Rightarrow> string"
  base64_DecodeString :: "string \<Rightarrow> error + string"
  json_Marshal :: "gomap \<Rightarrow> error + string"
  json_Unmarshal :: "string \<Rightarrow> error + gomap"
  strconv_ParseFloat :: "string \<Rightarrow> error + float64"
  fmt_Sprintf_0f :: "float64 \<Rightarrow> string"
  fmt_Sprintf_v :: "go_value \<Rightarrow> string"
  fmt_Sprintf_v_av :: "AttributeValue \<Rightarrow> string"
  attributevalue_MarshalMap :: "gomap \<Rightarrow> error + item"
  attributevalue_UnmarshalMap :: "item \<Rightarrow> error + gomap"
  attributevalue_MarshalUnit :: "Unit \<Rightarrow> error + item"
  attributevalue_UnmarshalUnit :: "item \<Rightarrow> error + Unit"
  gojsonschema_NewSchema :: "string \<Rightarrow> error + Schema"
  gojsonschema_Validate :: "Schema \<Rightarrow> gomap \<Rightarrow> error + string list"
  commercialVehicleTypeSchema :: string

section \<open>Schema validator\<close>

text \<open>The package-level \<open>schemaCache\<close>; the mutex has no sequential meaning.\<close>

type_synonym schemaCache = "string \<rightharpoonup> Schema"

definition loadSchema :: "env \<Rightarrow> schemaCache \<Rightarrow> string \<Rightarrow> (error + Schema) \<times> schemaCache" where
  "loadSchema E cache unitType =
     (case cache unitType of
        Some s \<Rightarrow> (Inr s, cache)
      | None \<Rightarrow>
          if unitType \<noteq> ''commercialVehicleType''
          then (Inl (New (''unsupported unit type: '' @ unitType)), cache)
          else (case gojsonschema_NewSchema E (commercialVehicleTypeSchema E) of
                  Inl err \<Rightarrow> (Inl (Wrap ''failed to compile schema'' err), cache)
                | Inr compiledSchema \<Rightarrow>
                    (Inr compiledSchema, cache(unitType \<mapsto> compiledSchema))))"

definition GetAvailableUnitTypes :: "error + string list" where
  "GetAvailableUnitTypes = Inr [''commercialVehicleType'']"

text \<open>A run of \<open>loadSchema\<close> calls from a given cache: the cache they leave behind.\<close>

fun loadSchemas :: "env \<Rightarrow> schemaCache \<Rightarrow> string list \<Rightarrow> schemaCache" where
  "loadSchemas E cache [] = cache"
| "loadSchemas E cache (t # ts) = loadSchemas E (snd (loadSchema E cache t)) ts"

text \<open>\<open>strings.Join\<close>.\<close>

fun Join :: "string list \<Rightarrow> string \<Rightarrow> string" where
  "Join [] sep = []"
| "Join [x] sep = x"
| "Join (x # y # ys) sep = x @ sep @ Join (y # ys) sep"

text \<open>
  The result of \<open>schema.Validate\<close> as both validating functions handle it: the validator's
  error is wrapped, a non-empty list of violations becomes one message.
\<close>

definition validation_result :: "error + string list \<Rightarrow> error option" where
  "validation_result r =
     (case r of
        Inl err \<Rightarrow> Some (Wrap ''schema validation error'' err)
      | Inr errorMessages \<Rightarrow>
          if errorMessages \<noteq> []
          then Some (New (''data validation failed: '' @ Join errorMessages ''; ''))
          else None)"

text \<open>
  \<open>data[k] = v\<close> on a map variable: a run-time panic on the nil map, else the map object
  itself is updated.
\<close>

definition map_assign :: "heap \<Rightarrow> ref option \<Rightarrow> string \<Rightarrow> go_value \<Rightarrow> error + heap" where
  "map_assign h m k v =
     (case m of
        None \<Rightarrow> Inl (Panic ''assignment to entry in nil map'')
      | Some r \<Rightarrow> Inr (h[r := (deref h m)(k \<mapsto> v)]))"

text \<open>
  \<open>ValidateAndSetData\<close>.  The result is the returned error (\<open>None\<close> for nil), the unit,
  the heap and the schema cache after the call.
\<close>

definition ValidateAndSetData ::
  "env \<Rightarrow> heap \<Rightarrow> schemaCache \<Rightarrow> DynamicUnit \<Rightarrow> ref option
     \<Rightarrow> error option \<times> DynamicUnit \<times> heap \<times> schemaCache" where
  "ValidateAndSetData E h cache du data =
     (case (case schema du of
              Some s \<Rightarrow> (Inr s, cache)
            | None \<Rightarrow> loadSchema E cache (UnitType du)) of
        (Inl err, cache1) \<Rightarrow>
          (Some (Wrap ''failed to load schema for validation'' err), du, h, cache1)
      | (Inr s, cache1) \<Rightarrow>
          let du1 = du\<lparr>schema := Some s\<rparr> in
          (case (if AccountID du1 \<noteq> []
                 then map_assign h data ''accountId'' (GoString (AccountID du1))
                 else Inr h) of
             Inl p \<Rightarrow> (Some p, du1, h, cache1)
           | Inr h1 \<Rightarrow>
              (case (if ID du1 \<noteq> []
                     then map_assign h1 data ''id'' (GoString (ID du1))
                     else Inr h1) of
                 Inl p \<Rightarrow> (Some p, du1, h1, cache1)
               | Inr h2 \<Rightarrow>
                  (case validation_result (gojsonschema_Validate E s (deref h2 data)) of
                     Some err \<Rightarrow> (Some err, du1, h2, cache1)
                   | None \<Rightarrow> (None, du1\<lparr>Data := data\<rparr>, h2, cache1)))))"

text \<open>
  \<open>Validate\<close>: the unit's data is copied into a fresh map, the core fields are added to
  the copy, and the copy is validated.
\<close>

definition Validate ::
  "env \<Rightarrow> heap \<Rightarrow> schemaCache \<Rightarrow> DynamicUnit \<Rightarrow> error option \<times> DynamicUnit \<times> schemaCache" where
  "Validate E h cache du =
     (case (case schema du of
              Some s \<Rightarrow> (Inr s, cache)
            | None \<Rightarrow> loadSchema E cache (UnitType du)) of
        (Inl err, cache1) \<Rightarrow>
          (Some (Wrap ''failed to load schema for validation'' err), du, cache1)
      | (Inr s, cache1) \<Rightarrow>
          let du1 = du\<lparr>schema := Some s\<rparr>;
              validationData = (deref h (Data du1))
                (''id'' \<mapsto> GoString (ID du1),
                 ''accountId'' \<mapsto> GoString (AccountID du1),
                 ''unitType'' \<mapsto> GoString (UnitType du1),
                 ''createdAt'' \<mapsto> GoInt64 (CreatedAt du1),
                 ''updatedAt'' \<mapsto> GoInt64 (UpdatedAt du1),
                 ''deletedAt'' \<mapsto> GoInt64 (DeletedAt du1))
          in (validation_result (gojsonschema_Validate E s validationData), du1, cache1))"

text \<open>\<open>NewDynamicUnit\<close>: the new unit's \<open>Data\<close> is a freshly made map.\<close>

definition NewDynamicUnit ::
  "env \<Rightarrow> heap \<Rightarrow> schemaCache \<Rightarrow> string \<Rightarrow> (error + DynamicUnit) \<times> heap \<times> schemaCache" where
  "NewDynamicUnit E h cache unitType =
     (case loadSchema E cache unitType of
        (Inl err, cache1) \<Rightarrow>
          (Inl (Wrap (''failed to load schema for unit type '' @ unitType) err), h, cache1)
      | (Inr s, cache1) \<Rightarrow>
          let (r, h1) = make_map h in
          (Inr \<lparr>ID = [], AccountID = [], UnitType = unitType, CreatedAt = 0, UpdatedAt = 0,
                DeletedAt = 0, Data = Some r, schema = Some s\<rparr>, h1, cache1))"

text \<open>
  \<open>ToMap\<close>: the core fields, then every entry of \<open>Data\<close> whose key is not one of the six
  skipped names (so an entry named \<open>pk\<close> or \<open>sk\<close> overwrites the core field).
\<close>

definition ToMap :: "heap \<Rightarrow> DynamicUnit \<Rightarrow> error + gomap" where
  "ToMap h du =
     Inr ([''id'' \<mapsto> GoString (ID du),
           ''pk'' \<mapsto> GoString (AccountID du),
           ''sk'' \<mapsto> GoString (GetSortKey du),
           ''unitType'' \<mapsto> GoString (UnitType du),
           ''createdAt'' \<mapsto> GoInt64 (CreatedAt du),
           ''updatedAt'' \<mapsto> GoInt64 (UpdatedAt du),
           ''deletedAt'' \<mapsto> GoInt64 (DeletedAt du)]
          ++ (deref h (Data du) |`
               (- {''id'', ''accountId'', ''unitType'', ''createdAt'', ''updatedAt'',
                   ''deletedAt''})))"

text \<open>
  The type assertions \<open>v, ok := x.(string)\<close> and \<open>v, ok := x.(int64)\<close> on a map entry:
  \<open>Some v\<close> when \<open>ok\<close>, that is when the entry is present and has that dynamic type.
\<close>

definition assert_string :: "go_value option \<Rightarrow> string option" where
  "assert_string x = (case x of Some (GoString s) \<Rightarrow> Some s | _ \<Rightarrow> None)"

definition assert_int64 :: "go_value option \<Rightarrow> int option" where
  "assert_int64 x = (case x of Some (GoInt64 i) \<Rightarrow> Some i | _ \<Rightarrow> None)"

text \<open>
  \<open>FromMap\<close>: each core field is taken only when the entry has the asserted dynamic
  type; \<open>Data\<close> becomes a new map with the remaining entries.
\<close>

definition FromMap :: "heap \<Rightarrow> DynamicUnit \<Rightarrow> gomap \<Rightarrow> DynamicUnit \<times> heap" where
  "FromMap h du data =
     (let du1 = (case assert_string (data ''id'') of Some v \<Rightarrow> du\<lparr>ID := v\<rparr> | None \<Rightarrow> du);
          du2 = (case assert_string (data ''pk'') of
                   Some pk \<Rightarrow> du1\<lparr>AccountID := pk\<rparr> | None \<Rightarrow> du1);
          du3 = (case assert_string (data ''sk'') of
                   Some sk \<Rightarrow>
                     (case SplitN2 (CHR ''#'') sk of
                        [t, _] \<Rightarrow> du2\<lparr>UnitType := t\<rparr>
                      | _ \<Rightarrow> du2)
                 | None \<Rightarrow> du2);
          du4 = (case assert_string (data ''unitType'') of
                   Some unitType \<Rightarrow> du3\<lparr>UnitType := unitType\<rparr> | None \<Rightarrow> du3);
          du5 = (case assert_int64 (data ''createdAt'') of
                   Some createdAt \<Rightarrow> du4\<lparr>CreatedAt := createdAt\<rparr> | None \<Rightarrow> du4);
          du6 = (case assert_int64 (data ''updatedAt'') of
                   Some updatedAt \<Rightarrow> du5\<lparr>UpdatedAt := updatedAt\<rparr> | None \<Rightarrow> du5);
          du7 = (case assert_int64 (data ''deletedAt'') of
                   Some deletedAt \<Rightarrow> du6\<lparr>DeletedAt := deletedAt\<rparr> | None \<Rightarrow> du6);
          (r, h1) = make_map h;
          h2 = h1[r := data |` (- {''pk'', ''sk'', ''createdAt'', ''updatedAt'', ''deletedAt''})]
      in (du7\<lparr>Data := Some r\<rparr>, h2))"

section \<open>Pagination codec\<close>

text \<open>
  The loop body of \<open>encodePaginationToken\<close>: the value stored in \<open>tokenData\<close> for one
  attribute of the key.  It is a Go string in all three branches.
\<close>

fun flattenAttribute :: "env \<Rightarrow> AttributeValue \<Rightarrow> go_value" where
  "flattenAttribute E (AttributeValueMemberS v) = GoString v"
| "flattenAttribute E (AttributeValueMemberN v) = GoString v"
| "flattenAttribute E value = GoString (fmt_Sprintf_v_av E value)"

definition encodePaginationToken :: "env \<Rightarrow> item option \<Rightarrow> error + string" where
  "encodePaginationToken E lastKey =
     (case lastKey of
        None \<Rightarrow> Inr []
      | Some lk \<Rightarrow>
          let tokenData = (\<lambda>k. map_option (flattenAttribute E) (lk k)) in
          (case json_Marshal E tokenData of
             Inl err \<Rightarrow> Inl (Wrap ''failed to marshal token data'' err)
           | Inr jsonBytes \<Rightarrow> Inr (base64_EncodeToString E jsonBytes)))"

text \<open>
  The loop body of \<open>decodePaginationToken\<close>: the attribute stored in \<open>lastKey\<close> for the
  field \<open>k\<close> of the decoded token.
\<close>

fun retypeField :: "env \<Rightarrow> string \<Rightarrow> go_value \<Rightarrow> AttributeValue" where
  "retypeField E k (GoString v) =
     (if k = ''pk'' \<or> k = ''sk'' then AttributeValueMemberS v
      else (case strconv_ParseFloat E v of
              Inr _ \<Rightarrow> AttributeValueMemberN v
            | Inl _ \<Rightarrow> AttributeValueMemberS v))"
| "retypeField E k (GoFloat64 v) = AttributeValueMemberN (fmt_Sprintf_0f E v)"
| "retypeField E k v = AttributeValueMemberS (fmt_Sprintf_v E v)"

definition decodePaginationToken :: "env \<Rightarrow> string \<Rightarrow> error + item option" where
  "decodePaginationToken E token =
     (if token = [] then Inr None
      else (case base64_DecodeString E token of
              Inl err \<Rightarrow> Inl (Wrap ''failed to decode token'' err)
            | Inr jsonBytes \<Rightarrow>
                (case json_Unmarshal E jsonBytes of
                   Inl err \<Rightarrow> Inl (Wrap ''failed to unmarshal token data'' err)
                 | Inr tokenData \<Rightarrow>
                     Inr (Some (\<lambda>k. map_option (retypeField E k) (tokenData k))))))"

section \<open>The store client\<close>

text \<open>
  The table behind \<open>dynamodb.Client\<close>, as far as the repository uses it (point read, point
  write with a condition on the current item, query of one partition).  A row is an
  item under its primary key, the values of its string attributes \<open>pk\<close> and \<open>sk\<close>.  The
  condition and key-condition expressions of the source are strings; the model keeps
  their syntax trees, with the \<open>:placeholder\<close> values filled in.
\<close>

datatype Condition =
    attribute_exists string
  | attribute_not_exists string
  | AttributeEquals string AttributeValue
  | And Condition Condition
  | Or Condition Condition

fun holds :: "Condition \<Rightarrow> item \<Rightarrow> bool" where
  "holds (attribute_exists a) it = (it a \<noteq> None)"
| "holds (attribute_not_exists a) it = (it a = None)"
| "holds (AttributeEquals a v) it = (it a = Some v)"
| "holds (And c d) it = (holds c it \<and> holds d it)"
| "holds (Or c d) it = (holds c it \<or> holds d it)"

datatype KeyCondition =
    PartitionEquals string
  | PartitionEqualsAndSortBeginsWith string string

record PutItemInput =
  pi_Item :: item
  pi_ConditionExpression :: "Condition option"

record QueryInput =
  qi_KeyConditionExpression :: KeyCondition
  qi_FilterExpression :: "Condition option"
  qi_Limit :: int
  qi_ExclusiveStartKey :: "item option"

record QueryOutput =
  qo_Items :: "item list"
  qo_LastEvaluatedKey :: "item option"

datatype call = GetItemCall item | PutItemCall PutItemInput | QueryCall QueryInput

text \<open>
  The state of the service: the rows of the table, the calls received so far, and an
  outage (an error every call returns while it lasts).
\<close>

record dynamodb =
  rows :: "((string \<times> string) \<times> item) list"
  calls :: "call list"
  outage :: "error option"

definition primary_key :: "item \<Rightarrow> (string \<times> string) option" where
  "primary_key it =
     (case (it ''pk'', it ''sk'') of
        (Some (AttributeValueMemberS pk), Some (AttributeValueMemberS sk)) \<Rightarrow>
          if pk \<noteq> [] \<and> sk \<noteq> [] then Some (pk, sk) else None
      | _ \<Rightarrow> None)"

fun put_row ::
  "((string \<times> string) \<times> item) list \<Rightarrow> (string \<times> string) \<Rightarrow> item
     \<Rightarrow> ((string \<times> string) \<times> item) list" where
  "put_row [] k it = [(k, it)]"
| "put_row ((k', it') # rs) k it =
     (if k' = k then (k, it) # rs else (k', it') # put_row rs k it)"

definition GetItem :: "dynamodb \<Rightarrow> item \<Rightarrow> (error + item option) \<times> dynamodb" where
  "GetItem db key =
     (let db1 = db\<lparr>calls := calls db @ [GetItemCall key]\<rparr> in
      case outage db of
        Some e \<Rightarrow> (Inl e, db1)
      | None \<Rightarrow>
          (case primary_key key of
             None \<Rightarrow> (Inl (ServiceError ''ValidationException''), db1)
           | Some k \<Rightarrow> (Inr (map_of (rows db) k), db1)))"

text \<open>
  \<open>PutItem\<close>: the condition is evaluated on the row stored under the item's key (on the
  empty item when there is none); when it fails nothing is written.
\<close>

definition PutItem :: "dynamodb \<Rightarrow> PutItemInput \<Rightarrow> error option \<times> dynamodb" where
  "PutItem db input =
     (let db1 = db\<lparr>calls := calls db @ [PutItemCall input]\<rparr> in
      case outage db of
        Some e \<Rightarrow> (Some e, db1)
      | None \<Rightarrow>
          (case primary_key (pi_Item input) of
             None \<Rightarrow> (Some (ServiceError ''ValidationException''), db1)
           | Some k \<Rightarrow>
               let current = (case map_of (rows db) k of None \<Rightarrow> Map.empty | Some it \<Rightarrow> it) in
               if (case pi_ConditionExpression input of None \<Rightarrow> True | Some c \<Rightarrow> holds c current)
               then (None, db1\<lparr>rows := put_row (rows db) k (pi_Item input)\<rparr>)
               else (Some ConditionalCheckFailedException, db1)))"

text \<open>
  \<open>Query\<close>: the rows of the partition that satisfy the key condition, in sort-key order,
  after the exclusive start key; at most \<open>Limit\<close> of them are evaluated, the filter is
  applied to those, and the key of the last evaluated row is returned when the limit
  stopped the query.
\<close>

definition Query :: "dynamodb \<Rightarrow> QueryInput \<Rightarrow> (error + QueryOutput) \<times> dynamodb" where
  "Query db input =
     (let db1 = db\<lparr>calls := calls db @ [QueryCall input]\<rparr> in
      case outage db of
        Some e \<Rightarrow> (Inl e, db1)
      | None \<Rightarrow>
          if qi_Limit input < 1 \<or>
             (case qi_ExclusiveStartKey input of
                None \<Rightarrow> False | Some k \<Rightarrow> primary_key k = None)
          then (Inl (ServiceError ''ValidationException''), db1)
          else
            let matching = sort_key (\<lambda>r. snd (fst r))
                  (filter (\<lambda>r. case qi_KeyConditionExpression input of
                                  PartitionEquals a \<Rightarrow> fst (fst r) = a
                                | PartitionEqualsAndSortBeginsWith a p \<Rightarrow>
                                    fst (fst r) = a \<and> take (length p) (snd (fst r)) = p)
                     (rows db));
                remaining = (case qi_ExclusiveStartKey input of
                               None \<Rightarrow> matching
                             | Some k \<Rightarrow>
                                 filter (\<lambda>r. snd (the (primary_key k)) < snd (fst r)) matching);
                evaluated = take (nat (qi_Limit input)) remaining;
                items = filter (\<lambda>it. case qi_FilterExpression input of
                                        None \<Rightarrow> True | Some c \<Rightarrow> holds c it)
                          (map snd evaluated)
            in (Inr \<lparr>qo_Items = items,
                     qo_LastEvaluatedKey =
                       (if nat (qi_Limit input) \<le> length remaining
                        then Some [''pk'' \<mapsto> AttributeValueMemberS (fst (fst (last evaluated))),
                                   ''sk'' \<mapsto> AttributeValueMemberS (snd (fst (last evaluated)))]
                        else None)\<rparr>, db1))"

text \<open>
  What a conditional update must not replace: the row under the item's key is absent,
  or it carries a \<open>deletedAt\<close> attribute other than the number 0 (it is soft-deleted).
\<close>

definition absent_or_soft_deleted :: "dynamodb \<Rightarrow> item \<Rightarrow> bool" where
  "absent_or_soft_deleted db item =
     (case primary_key item of
        None \<Rightarrow> False
      | Some k \<Rightarrow>
          (case map_of (rows db) k of
             None \<Rightarrow> True
           | Some row \<Rightarrow>
               (case row ''deletedAt'' of
                  None \<Rightarrow> False
                | Some d \<Rightarrow> d \<noteq> AttributeValueMemberN ''0'')))"

section \<open>Request and response types\<close>

text \<open>\<open>appsync.ListUnitsInput\<close>; a nil pointer field is \<open>None\<close>.  Go's \<open>int\<close> is 64 bits.\<close>

record ListUnitsInput =
  li_AccountID :: string
  li_UnitType :: "string option"
  li_Limit :: "int option"
  li_NextToken :: "string option"
  li_Filter :: "string option"

text \<open>The conversion \<open>int32(x)\<close> of a Go \<open>int\<close>: two's complement truncation.\<close>

definition int32 :: "int \<Rightarrow> int" where
  "int32 x = (x + 2 ^ 31) mod 2 ^ 32 - 2 ^ 31"

text \<open>
  The limit both \<open>List\<close> variants compute before they build the query:
  \<^verbatim>\<open>limit := int32(20); if input.Limit != nil && *input.Limit > 0 && *input.Limit <= 100 { limit = int32(*input.Limit) }\<close>
\<close>

definition queryLimit :: "ListUnitsInput \<Rightarrow> int" where
  "queryLimit input =
     (case li_Limit input of
        None \<Rightarrow> int32 20
      | Some l \<Rightarrow> if l > 0 \<and> l \<le> 100 then int32 l else int32 20)"

text \<open>
  \<open>appsync.ListUnitsResponse\<close>.  A Go slice is \<open>None\<close> when it is nil (it marshals to JSON
  \<open>null\<close>) and \<open>Some xs\<close> otherwise (\<open>Some []\<close> marshals to \<open>[]\<close>).
\<close>

record 'a ListUnitsResponse =
  lr_Items :: "'a list option"
  lr_NextToken :: "string option"
  lr_Count :: int

definition append_slice :: "'a list option \<Rightarrow> 'a \<Rightarrow> 'a list option" where
  "append_slice s x = (case s of None \<Rightarrow> Some [x] | Some xs \<Rightarrow> Some (xs @ [x]))"

definition len :: "'a list option \<Rightarrow> int" where
  "len s = (case s of None \<Rightarrow> 0 | Some xs \<Rightarrow> int (length xs))"

section \<open>Repository, schema-driven variant\<close>

text \<open>
  Everything a repository call can read or change: the heap of Go maps, the schema
  cache, and the store.
\<close>

record world =
  w_heap :: heap
  w_cache :: schemaCache
  w_db :: dynamodb

text \<open>\<open>attribute_not_exists(pk) AND attribute_not_exists(sk)\<close>\<close>

definition keyMustNotExist :: Condition where
  "keyMustNotExist = And (attribute_not_exists ''pk'') (attribute_not_exists ''sk'')"

text \<open>\<open>attribute_not_exists(deletedAt) OR deletedAt = :zero\<close>, with \<open>:zero\<close> the number 0\<close>

definition notDeleted :: Condition where
  "notDeleted =
     Or (attribute_not_exists ''deletedAt'')
        (AttributeEquals ''deletedAt'' (AttributeValueMemberN ''0''))"

text \<open>
  \<open>attribute_exists(pk) AND attribute_exists(sk) AND (attribute_not_exists(deletedAt) OR deletedAt = :zero)\<close>
\<close>

definition existsAndNotDeleted :: Condition where
  "existsAndNotDeleted =
     And (And (attribute_exists ''pk'') (attribute_exists ''sk'')) notDeleted"

text \<open>
  \<open>Create\<close>.  The arguments \<open>uuid\<close> and \<open>now\<close> are what \<open>uuid.New().String()\<close> and
  \<open>time.Now().Unix()\<close> return during the call.  The result is the returned error, the
  unit behind the pointer after the call, and the world after the call.
\<close>

definition Create ::
  "env \<Rightarrow> string \<Rightarrow> int \<Rightarrow> world \<Rightarrow> DynamicUnit option
     \<Rightarrow> error option \<times> DynamicUnit option \<times> world" where
  "Create E uuid now w unit =
     (case unit of
        None \<Rightarrow> (Some (New ''unit cannot be nil''), None, w)
      | Some u \<Rightarrow>
          if AccountID u = [] then (Some (New ''accountID is required''), Some u, w)
          else if UnitType u = [] then (Some (New ''unitType is required''), Some u, w)
          else
            let u1 = (if ID u = [] then GenerateID uuid u else u);
                u2 = SetTimestamps now u1
            in (case Validate E (w_heap w) (w_cache w) u2 of
                  (Some err, u3, cache1) \<Rightarrow>
                    (Some (Wrap ''validation failed'' err), Some u3, w\<lparr>w_cache := cache1\<rparr>)
                | (None, u3, cache1) \<Rightarrow>
                    let w1 = w\<lparr>w_cache := cache1\<rparr> in
                    (case ToMap (w_heap w1) u3 of
                       Inl err \<Rightarrow> (Some (Wrap ''failed to convert unit to map'' err), Some u3, w1)
                     | Inr unitMap \<Rightarrow>
                         (case attributevalue_MarshalMap E unitMap of
                            Inl err \<Rightarrow> (Some (Wrap ''failed to marshal unit'' err), Some u3, w1)
                          | Inr item \<Rightarrow>
                              (case PutItem (w_db w1)
                                      \<lparr>pi_Item = item,
                                       pi_ConditionExpression = Some keyMustNotExist\<rparr> of
                                 (Some err, db1) \<Rightarrow>
                                   (Some (if errors_As_ConditionalCheckFailed err
                                          then New (''unit already exists for account '' @ AccountID u3
                                                    @ '' and unitType '' @ UnitType u3
                                                    @ '' with ID '' @ ID u3)
                                          else Wrap ''failed to create unit'' err),
                                    Some u3, w1\<lparr>w_db := db1\<rparr>)
                               | (None, db1) \<Rightarrow> (None, Some u3, w1\<lparr>w_db := db1\<rparr>))))))"

definition GetByKey ::
  "env \<Rightarrow> world \<Rightarrow> string \<Rightarrow> string \<Rightarrow> (error + DynamicUnit option) \<times> world" where
  "GetByKey E w accountID sortKey =
     (if accountID = [] then (Inl (New ''accountID is required''), w)
      else if sortKey = [] then (Inl (New ''sortKey is required''), w)
      else
        let key = [''pk'' \<mapsto> AttributeValueMemberS accountID,
                   ''sk'' \<mapsto> AttributeValueMemberS sortKey]
        in (case GetItem (w_db w) key of
              (Inl err, db1) \<Rightarrow> (Inl (Wrap ''failed to get unit'' err), w\<lparr>w_db := db1\<rparr>)
            | (Inr None, db1) \<Rightarrow> (Inr None, w\<lparr>w_db := db1\<rparr>)
            | (Inr (Some resultItem), db1) \<Rightarrow>
                let w1 = w\<lparr>w_db := db1\<rparr> in
                (case attributevalue_UnmarshalMap E resultItem of
                   Inl err \<Rightarrow> (Inl (Wrap ''failed to unmarshal unit'' err), w1)
                 | Inr itemMap \<Rightarrow>
                     (case SplitN2 (CHR ''#'') sortKey of
                        [unitType, _] \<Rightarrow>
                          (case NewDynamicUnit E (w_heap w1) (w_cache w1) unitType of
                             (Inl err, h1, cache1) \<Rightarrow>
                               (Inl (Wrap ''failed to create dynamic unit'' err),
                                w1\<lparr>w_heap := h1, w_cache := cache1\<rparr>)
                           | (Inr unit, h1, cache1) \<Rightarrow>
                               (case FromMap h1 unit itemMap of
                                  (unit1, h2) \<Rightarrow>
                                    if IsDeleted unit1
                                    then (Inr None, w1\<lparr>w_heap := h2, w_cache := cache1\<rparr>)
                                    else (Inr (Some unit1), w1\<lparr>w_heap := h2, w_cache := cache1\<rparr>)))
                      | _ \<Rightarrow> (Inl (New (''invalid sort key format: '' @ sortKey)), w1)))))"

definition GetByID ::
  "env \<Rightarrow> world \<Rightarrow> string \<Rightarrow> string \<Rightarrow> string \<Rightarrow> (error + DynamicUnit option) \<times> world" where
  "GetByID E w accountID unitType unitID =
     (if accountID = [] then (Inl (New ''accountID is required''), w)
      else if unitType = [] then (Inl (New ''unitType is required''), w)
      else if unitID = [] then (Inl (New ''unitID is required''), w)
      else GetByKey E w accountID (unitType @ ''#'' @ unitID))"

definition Update ::
  "env \<Rightarrow> int \<Rightarrow> world \<Rightarrow> DynamicUnit option \<Rightarrow> error option \<times> DynamicUnit option \<times> world" where
  "Update E now w unit =
     (case unit of
        None \<Rightarrow> (Some (New ''unit cannot be nil''), None, w)
      | Some u \<Rightarrow>
          if AccountID u = [] then (Some (New ''accountID is required''), Some u, w)
          else if UnitType u = [] then (Some (New ''unitType is required''), Some u, w)
          else if ID u = [] then (Some (New ''ID is required''), Some u, w)
          else
            let u2 = SetTimestamps now u
            in (case Validate E (w_heap w) (w_cache w) u2 of
                  (Some err, u3, cache1) \<Rightarrow>
                    (Some (Wrap ''validation failed'' err), Some u3, w\<lparr>w_cache := cache1\<rparr>)
                | (None, u3, cache1) \<Rightarrow>
                    let w1 = w\<lparr>w_cache := cache1\<rparr> in
                    (case ToMap (w_heap w1) u3 of
                       Inl err \<Rightarrow> (Some (Wrap ''failed to convert unit to map'' err), Some u3, w1)
                     | Inr unitMap \<Rightarrow>
                         (case attributevalue_MarshalMap E unitMap of
                            Inl err \<Rightarrow> (Some (Wrap ''failed to marshal unit'' err), Some u3, w1)
                          | Inr item \<Rightarrow>
                              (case PutItem (w_db w1)
                                      \<lparr>pi_Item = item,
                                       pi_ConditionExpression = Some existsAndNotDeleted\<rparr> of
                                 (Some err, db1) \<Rightarrow>
                                   (Some (if errors_As_ConditionalCheckFailed err
                                          then New (''unit does not exist or is deleted for account ''
                                                    @ AccountID u3 @ '', unitType '' @ UnitType u3
                                                    @ '', and ID '' @ ID u3)
                                          else Wrap ''failed to update unit'' err),
                                    Some u3, w1\<lparr>w_db := db1\<rparr>)
                               | (None, db1) \<Rightarrow> (None, Some u3, w1\<lparr>w_db := db1\<rparr>))))))"

text \<open>
  \<open>Delete\<close> reads the clock twice: \<open>now1\<close> in \<open>MarkDeleted\<close>, \<open>now2\<close> in \<open>SetTimestamps\<close>.
\<close>

definition Delete ::
  "env \<Rightarrow> int \<Rightarrow> int \<Rightarrow> world \<Rightarrow> string \<Rightarrow> string \<Rightarrow> string \<Rightarrow> error option \<times> world" where
  "Delete E now1 now2 w accountID unitType unitID =
     (if accountID = [] then (Some (New ''accountID is required''), w)
      else if unitType = [] then (Some (New ''unitType is required''), w)
      else if unitID = [] then (Some (New ''unitID is required''), w)
      else
        let sortKey = unitType @ ''#'' @ unitID in
        (case GetByKey E w accountID sortKey of
           (Inl err, w1) \<Rightarrow> (Some (Wrap ''failed to check unit existence'' err), w1)
         | (Inr None, w1) \<Rightarrow>
             (Some (New (''unit not found for account '' @ accountID @ '', unitType '' @ unitType
                         @ '', and ID '' @ unitID)), w1)
         | (Inr (Some unit), w1) \<Rightarrow>
             let unit1 = MarkDeleted now1 unit;
                 unit2 = SetTimestamps now2 unit1
             in (case ToMap (w_heap w1) unit2 of
                   Inl err \<Rightarrow> (Some (Wrap ''failed to convert unit to map'' err), w1)
                 | Inr unitMap \<Rightarrow>
                     (case attributevalue_MarshalMap E unitMap of
                        Inl err \<Rightarrow> (Some (Wrap ''failed to marshal unit'' err), w1)
                      | Inr item \<Rightarrow>
                          (case PutItem (w_db w1)
                                  \<lparr>pi_Item = item, pi_ConditionExpression = None\<rparr> of
                             (Some err, db1) \<Rightarrow>
                               (Some (Wrap ''failed to delete unit'' err), w1\<lparr>w_db := db1\<rparr>)
                           | (None, db1) \<Rightarrow> (None, w1\<lparr>w_db := db1\<rparr>))))))"

text \<open>
  The loop of \<open>List\<close> over \<open>result.Items\<close>; \<open>unitMaps\<close> starts as the nil slice of
  \<^verbatim>\<open>var unitMaps []map[string]interface{}\<close>.
\<close>

fun unmarshalItems :: "env \<Rightarrow> item list \<Rightarrow> gomap list option \<Rightarrow> error + gomap list option" where
  "unmarshalItems E [] unitMaps = Inr unitMaps"
| "unmarshalItems E (it # its) unitMaps =
     (case attributevalue_UnmarshalMap E it of
        Inl err \<Rightarrow> Inl (Wrap ''failed to unmarshal unit'' err)
      | Inr unitMap \<Rightarrow> unmarshalItems E its (append_slice unitMaps unitMap))"

text \<open>
  The part of both \<open>List\<close> variants that decodes the incoming token into the query's
  exclusive start key.
\<close>

definition withStartKey :: "env \<Rightarrow> ListUnitsInput \<Rightarrow> QueryInput \<Rightarrow> error + QueryInput" where
  "withStartKey E inp queryInput =
     (case li_NextToken inp of
        None \<Rightarrow> Inr queryInput
      | Some t \<Rightarrow>
          if t = [] then Inr queryInput
          else (case decodePaginationToken E t of
                  Inl err \<Rightarrow> Inl (Wrap ''failed to decode pagination token'' err)
                | Inr None \<Rightarrow> Inr queryInput
                | Inr (Some exclusiveStartKey) \<Rightarrow>
                    Inr (queryInput\<lparr>qi_ExclusiveStartKey := Some exclusiveStartKey\<rparr>)))"

text \<open>
  The part of both \<open>List\<close> variants that turns the query's last evaluated key into the
  response's next token.
\<close>

definition withNextToken ::
  "env \<Rightarrow> item option \<Rightarrow> 'a ListUnitsResponse \<Rightarrow> error + 'a ListUnitsResponse" where
  "withNextToken E lastEvaluatedKey response =
     (case lastEvaluatedKey of
        None \<Rightarrow> Inr response
      | Some k \<Rightarrow>
          (case encodePaginationToken E (Some k) of
             Inl err \<Rightarrow> Inl (Wrap ''failed to encode pagination token'' err)
           | Inr nextToken \<Rightarrow>
               if nextToken \<noteq> [] then Inr (response\<lparr>lr_NextToken := Some nextToken\<rparr>)
               else Inr response))"

definition List ::
  "env \<Rightarrow> world \<Rightarrow> ListUnitsInput option \<Rightarrow> (error + gomap ListUnitsResponse) \<times> world" where
  "List E w input =
     (case input of
        None \<Rightarrow> (Inl (New ''input is required''), w)
      | Some inp \<Rightarrow>
          if li_AccountID inp = [] then (Inl (New ''accountID is required''), w)
          else
            let limit = queryLimit inp;
                keyConditionExpression =
                  (case li_UnitType inp of
                     None \<Rightarrow> PartitionEquals (li_AccountID inp)
                   | Some t \<Rightarrow>
                       if t \<noteq> []
                       then PartitionEqualsAndSortBeginsWith (li_AccountID inp) (t @ ''#'')
                       else PartitionEquals (li_AccountID inp));
                queryInput = \<lparr>qi_KeyConditionExpression = keyConditionExpression,
                              qi_FilterExpression = Some notDeleted,
                              qi_Limit = limit,
                              qi_ExclusiveStartKey = None\<rparr>
            in (case withStartKey E inp queryInput of
                  Inl err \<Rightarrow> (Inl err, w)
                | Inr queryInput1 \<Rightarrow>
                    (case Query (w_db w) queryInput1 of
                       (Inl err, db1) \<Rightarrow> (Inl (Wrap ''failed to list units'' err), w\<lparr>w_db := db1\<rparr>)
                     | (Inr result, db1) \<Rightarrow>
                         (case unmarshalItems E (qo_Items result) None of
                            Inl err \<Rightarrow> (Inl err, w\<lparr>w_db := db1\<rparr>)
                          | Inr unitMaps \<Rightarrow>
                              (withNextToken E (qo_LastEvaluatedKey result)
                                 \<lparr>lr_Items = unitMaps, lr_NextToken = None,
                                  lr_Count = len unitMaps\<rparr>,
                               w\<lparr>w_db := db1\<rparr>)))))"

section \<open>Repository, fixed-schema variant\<close>

text \<open>
  \<open>attributevalue.UnmarshalListOfMaps(items, &units)\<close> of the SDK: every item is decoded
  in turn; the slice it leaves in \<open>units\<close> is never nil (a nil or too short slice is
  replaced by a newly made one).
\<close>

fun unmarshalUnits :: "env \<Rightarrow> item list \<Rightarrow> error + Unit list" where
  "unmarshalUnits E [] = Inr []"
| "unmarshalUnits E (it # its) =
     (case attributevalue_UnmarshalUnit E it of
        Inl err \<Rightarrow> Inl err
      | Inr u \<Rightarrow> (case unmarshalUnits E its of Inl err \<Rightarrow> Inl err | Inr us \<Rightarrow> Inr (u # us)))"

definition attributevalue_UnmarshalListOfMaps ::
  "env \<Rightarrow> item list \<Rightarrow> Unit list option \<Rightarrow> error + Unit list option" where
  "attributevalue_UnmarshalListOfMaps E items units =
     (case unmarshalUnits E items of Inl err \<Rightarrow> Inl err | Inr us \<Rightarrow> Inr (Some us))"

definition GetByKey_fixed ::
  "env \<Rightarrow> world \<Rightarrow> string \<Rightarrow> string \<Rightarrow> string \<Rightarrow> (error + Unit option) \<times> world" where
  "GetByKey_fixed E w accountID unitID unitType =
     (if accountID = [] then (Inl (New ''accountID is required''), w)
      else if unitID = [] then (Inl (New ''unitID is required''), w)
      else if unitType = [] then (Inl (New ''unitType is required''), w)
      else
        let sk = unitID @ ''#'' @ unitType;
            key = [''pk'' \<mapsto> AttributeValueMemberS accountID,
                   ''sk'' \<mapsto> AttributeValueMemberS sk]
        in (case GetItem (w_db w) key of
              (Inl err, db1) \<Rightarrow> (Inl (Wrap ''failed to get unit'' err), w\<lparr>w_db := db1\<rparr>)
            | (Inr None, db1) \<Rightarrow> (Inr None, w\<lparr>w_db := db1\<rparr>)
            | (Inr (Some resultItem), db1) \<Rightarrow>
                (case attributevalue_UnmarshalUnit E resultItem of
                   Inl err \<Rightarrow> (Inl (Wrap ''failed to unmarshal unit'' err), w\<lparr>w_db := db1\<rparr>)
                 | Inr unit \<Rightarrow>
                     if IsDeleted_fixed unit then (Inr None, w\<lparr>w_db := db1\<rparr>)
                     else (Inr (Some unit), w\<lparr>w_db := db1\<rparr>))))"

definition Update_fixed ::
  "env \<Rightarrow> int \<Rightarrow> world \<Rightarrow> Unit option \<Rightarrow> error option \<times> Unit option \<times> world" where
  "Update_fixed E now w unit =
     (case unit of
        None \<Rightarrow> (Some (New ''unit cannot be nil''), None, w)
      | Some u \<Rightarrow>
          if u_AccountID u = [] then (Some (New ''accountID is required''), Some u, w)
          else if u_ID u = [] then (Some (New ''unit ID is required''), Some u, w)
          else if u_UnitType u = [] then (Some (New ''unitType is required''), Some u, w)
          else
            let u1 = SetTimestamps_fixed now u;
                u2 = u1\<lparr>u_SortKey := GetSortKey_fixed u1\<rparr>
            in (case attributevalue_MarshalUnit E u2 of
                  Inl err \<Rightarrow> (Some (Wrap ''failed to marshal unit'' err), Some u2, w)
                | Inr item \<Rightarrow>
                    (case PutItem (w_db w)
                            \<lparr>pi_Item = item,
                             pi_ConditionExpression = Some existsAndNotDeleted\<rparr> of
                       (Some err, db1) \<Rightarrow>
                         (Some (if errors_As_ConditionalCheckFailed err
                                then New (''unit with id '' @ u_ID u2 @ '' and type '' @ u_UnitType u2
                                          @ '' does not exist or is deleted for account ''
                                          @ u_AccountID u2)
                                else Wrap ''failed to update unit'' err),
                          Some u2, w\<lparr>w_db := db1\<rparr>)
                     | (None, db1) \<Rightarrow> (None, Some u2, w\<lparr>w_db := db1\<rparr>))))"

definition Delete_fixed ::
  "env \<Rightarrow> int \<Rightarrow> world \<Rightarrow> string \<Rightarrow> string \<Rightarrow> string \<Rightarrow> error option \<times> world" where
  "Delete_fixed E now w accountID unitID unitType =
     (if accountID = [] then (Some (New ''accountID is required''), w)
      else if unitID = [] then (Some (New ''unitID is required''), w)
      else if unitType = [] then (Some (New ''unitType is required''), w)
      else
        (case GetByKey_fixed E w accountID unitID unitType of
           (Inl err, w1) \<Rightarrow> (Some (Wrap ''failed to check unit existence'' err), w1)
         | (Inr None, w1) \<Rightarrow>
             (Some (New (''unit with id '' @ unitID @ '' and type '' @ unitType
                         @ '' not found for account '' @ accountID)), w1)
         | (Inr (Some unit), w1) \<Rightarrow>
             let unit1 = MarkDeleted_fixed now unit;
                 unit2 = unit1\<lparr>u_SortKey := GetSortKey_fixed unit1\<rparr>
             in (case attributevalue_MarshalUnit E unit2 of
                   Inl err \<Rightarrow> (Some (Wrap ''failed to marshal unit'' err), w1)
                 | Inr item \<Rightarrow>
                     (case PutItem (w_db w1)
                             \<lparr>pi_Item = item, pi_ConditionExpression = None\<rparr> of
                        (Some err, db1) \<Rightarrow>
                          (Some (Wrap ''failed to delete unit'' err), w1\<lparr>w_db := db1\<rparr>)
                      | (None, db1) \<Rightarrow> (None, w1\<lparr>w_db := db1\<rparr>)))))"

definition List_fixed ::
  "env \<Rightarrow> world \<Rightarrow> ListUnitsInput option \<Rightarrow> (error + Unit ListUnitsResponse) \<times> world" where
  "List_fixed E w input =
     (case input of
        None \<Rightarrow> (Inl (New ''input is required''), w)
      | Some inp \<Rightarrow>
          if li_AccountID inp = [] then (Inl (New ''accountID is required''), w)
          else
            let limit = queryLimit inp;
                queryInput = \<lparr>qi_KeyConditionExpression = PartitionEquals (li_AccountID inp),
                              qi_FilterExpression = Some notDeleted,
                              qi_Limit = limit,
                              qi_ExclusiveStartKey = None\<rparr>
            in (case withStartKey E inp queryInput of
                  Inl err \<Rightarrow> (Inl err, w)
                | Inr queryInput1 \<Rightarrow>
                    (case Query (w_db w) queryInput1 of
                       (Inl err, db1) \<Rightarrow> (Inl (Wrap ''failed to list units'' err), w\<lparr>w_db := db1\<rparr>)
                     | (Inr result, db1) \<Rightarrow>
                         (case attributevalue_UnmarshalListOfMaps E (qo_Items result) (Some []) of
                            Inl err \<Rightarrow> (Inl (Wrap ''failed to unmarshal units'' err), w\<lparr>w_db := db1\<rparr>)
                          | Inr units \<Rightarrow>
                              (withNextToken E (qo_LastEvaluatedKey result)
                                 \<lparr>lr_Items = units, lr_NextToken = None, lr_Count = len units\<rparr>,
                               w\<lparr>w_db := db1\<rparr>)))))"

section \<open>A reference environment\<close>

text \<open>
  One concrete \<open>env\<close>, to run the model on concrete inputs.  It implements standard
  base64 with padding in full, and the other packages on the part of their domain the
  examples below use:
  \<^item> JSON objects whose members are strings of printable ASCII without \<open>"\<close>, \<open>\\<close>, \<open><\<close>,
    \<open>>\<close> and \<open>&\<close> (the characters Go would escape), in Go's compact form with sorted keys;
  \<^item> \<open>strconv.ParseFloat\<close> and the number decoding of the attribute codec on decimal
    integers;
  \<^item> a schema validator for the one embedded schema document, whose constraints are
    transcribed from the document.
  Outside this part a function of the reference environment reports an error or
  returns a fixed value; no general theorem depends on it.
\<close>

definition b64_alphabet :: string where
  "b64_alphabet = ''ABCDEFGHIJKLMNOPQRSTUVWXYZabcdefghijklmnopqrstuvwxyz0123456789+/''"

definition b64_char :: "nat \<Rightarrow> char" where
  "b64_char n = b64_alphabet ! n"

fun b64_encode :: "string \<Rightarrow> string" where
  "b64_encode [] = []"
| "b64_encode [a] =
     (let x = (of_char a :: nat)
      in [b64_char (x div 4), b64_char ((x mod 4) * 16), CHR ''='', CHR ''=''])"
| "b64_encode [a, b] =
     (let x = (of_char a :: nat); y = (of_char b :: nat)
      in [b64_char (x div 4), b64_char ((x mod 4) * 16 + y div 16),
          b64_char ((y mod 16) * 4), CHR ''=''])"
| "b64_encode (a # b # c # rest) =
     (let x = (of_char a :: nat); y = (of_char b :: nat); z = (of_char c :: nat)
      in [b64_char (x div 4), b64_char ((x mod 4) * 16 + y div 16),
          b64_char ((y mod 16) * 4 + z div 64), b64_char (z mod 64)] @ b64_encode rest)"

fun index_of :: "'a list \<Rightarrow> 'a \<Rightarrow> nat option" where
  "index_of [] c = None"
| "index_of (x # xs) c = (if x = c then Some 0 else map_option Suc (index_of xs c))"

definition b64_index :: "char \<Rightarrow> nat option" where
  "b64_index c = index_of b64_alphabet c"

text \<open>The quanta of a base64 text; padding is accepted in the last quantum only.\<close>

fun b64_quanta :: "string \<Rightarrow> string option" where
  "b64_quanta [] = Some []"
| "b64_quanta [a, b, c, d] =
     (case (b64_index a, b64_index b) of
        (Some i, Some j) \<Rightarrow>
          if c = CHR ''='' \<and> d = CHR ''='' then Some [char_of (i * 4 + j div 16)]
          else (case b64_index c of
                  None \<Rightarrow> None
                | Some k \<Rightarrow>
                    if d = CHR ''=''
                    then Some [char_of (i * 4 + j div 16), char_of ((j mod 16) * 16 + k div 4)]
                    else (case b64_index d of
                            None \<Rightarrow> None
                          | Some l \<Rightarrow>
                              Some [char_of (i * 4 + j div 16),
                                    char_of ((j mod 16) * 16 + k div 4),
                                    char_of ((k mod 4) * 64 + l)]))
      | _ \<Rightarrow> None)"
| "b64_quanta (a # b # c # d # rest) =
     (case (b64_index a, b64_index b, b64_index c, b64_index d) of
        (Some i, Some j, Some k, Some l) \<Rightarrow>
          map_option
            (\<lambda>bs. [char_of (i * 4 + j div 16), char_of ((j mod 16) * 16 + k div 4),
                    char_of ((k mod 4) * 64 + l)] @ bs)
            (b64_quanta rest)
      | _ \<Rightarrow> None)"
| "b64_quanta _ = None"

text \<open>\<open>DecodeString\<close> ignores carriage returns and line feeds.\<close>

definition b64_decode :: "string \<Rightarrow> error + string" where
  "b64_decode s =
     (case b64_quanta (filter (\<lambda>c. c \<noteq> CHR 0x0A \<and> c \<noteq> CHR 0x0D) s) of
        None \<Rightarrow> Inl (LibError ''illegal base64 data'')
      | Some bs \<Rightarrow> Inr bs)"

definition json_plain :: "string \<Rightarrow> bool" where
  "json_plain s =
     list_all (\<lambda>c. 32 \<le> (of_char c :: nat) \<and> (of_char c :: nat) < 127 \<and>
                    c \<notin> {CHR 0x22, CHR 0x5C, CHR ''<'', CHR ''>'', CHR ''&''}) s"

definition json_quote :: "string \<Rightarrow> string" where
  "json_quote s = CHR 0x22 # s @ [CHR 0x22]"

fun json_members :: "gomap \<Rightarrow> string list \<Rightarrow> string list option" where
  "json_members m [] = Some []"
| "json_members m (k # ks) =
     (case m k of
        Some (GoString v) \<Rightarrow>
          if json_plain k \<and> json_plain v
          then map_option (\<lambda>r. (json_quote k @ '':'' @ json_quote v) # r) (json_members m ks)
          else None
      | _ \<Rightarrow> None)"

definition ref_json_Marshal :: "gomap \<Rightarrow> error + string" where
  "ref_json_Marshal m =
     (case json_members m (sorted_list_of_set (dom m)) of
        None \<Rightarrow> Inl (LibError ''json: outside the reference fragment'')
      | Some ms \<Rightarrow> Inr (''{'' @ Join ms '','' @ ''}''))"

text \<open>\<open>split sep s\<close>: the pieces of \<open>s\<close> between the occurrences of \<open>sep\<close>.\<close>

fun split :: "char \<Rightarrow> string \<Rightarrow> string list" where
  "split sep [] = [[]]"
| "split sep (c # cs) =
     (case split sep cs of
        [] \<Rightarrow> [[c]]
      | p # ps \<Rightarrow> if c = sep then [] # p # ps else (c # p) # ps)"

text \<open>
  The pieces of an object's text between its quotes, after the opening brace:
  \<open>key, ":", value, ","\<close> repeated, closed by \<open>key, ":", value, "}"\<close>.
\<close>

fun json_pairs :: "string list \<Rightarrow> (string \<times> string) list option" where
  "json_pairs (k # c # v # e # rest) =
     (if c = '':'' \<and> json_plain k \<and> json_plain v
      then (if e = ''}'' \<and> rest = [] then Some [(k, v)]
            else if e = '','' then map_option (\<lambda>r. (k, v) # r) (json_pairs rest)
            else None)
      else None)"
| "json_pairs _ = None"

definition ref_json_Unmarshal :: "string \<Rightarrow> error + gomap" where
  "ref_json_Unmarshal s =
     (if s = ''null'' \<or> s = ''{}'' then Inr Map.empty
      else (case split (CHR 0x22) s of
              b # ps \<Rightarrow>
                if b = ''{''
                then (case json_pairs ps of
                        None \<Rightarrow> Inl (LibError ''json: invalid or outside the reference fragment'')
                      | Some kvs \<Rightarrow> Inr (map_of (rev (map (\<lambda>(k, v). (k, GoString v)) kvs))))
                else Inl (LibError ''json: invalid or outside the reference fragment'')
            | [] \<Rightarrow> Inl (LibError ''json: invalid or outside the reference fragment'')))"

fun digits_value :: "string \<Rightarrow> nat \<Rightarrow> nat option" where
  "digits_value [] acc = Some acc"
| "digits_value (c # cs) acc =
     (if CHR ''0'' \<le> c \<and> c \<le> CHR ''9''
      then digits_value cs (acc * 10 + ((of_char c :: nat) - 48))
      else None)"

definition decimal_integer :: "string \<Rightarrow> int option" where
  "decimal_integer s =
     (case s of
        [] \<Rightarrow> None
      | c # cs \<Rightarrow>
          if c = CHR ''-'' \<and> cs \<noteq> [] then map_option (\<lambda>n. - int n) (digits_value cs 0)
          else if c = CHR ''+'' \<and> cs \<noteq> [] then map_option int (digits_value cs 0)
          else map_option int (digits_value s 0))"

definition ref_ParseFloat :: "string \<Rightarrow> error + float64" where
  "ref_ParseFloat s =
     (case decimal_integer s of
        None \<Rightarrow> Inl (LibError ''strconv.ParseFloat: invalid syntax'')
      | Some n \<Rightarrow> Inr (Float64 n 0))"

fun digits_of :: "nat \<Rightarrow> string" where
  "digits_of n = (if n < 10 then [char_of (48 + n)] else digits_of (n div 10) @ [char_of (48 + n mod 10)])"

declare digits_of.simps [simp del]

definition FormatInt :: "int \<Rightarrow> string" where
  "FormatInt i = (if i < 0 then CHR ''-'' # digits_of (nat (- i)) else digits_of (nat i))"

fun ref_Sprintf_0f :: "float64 \<Rightarrow> string" where
  "ref_Sprintf_0f (Float64 m e) =
     (if 0 \<le> e then FormatInt (m * 2 ^ nat e)
      else let d = 2 ^ nat (- e); q = m div d; r = m mod d
           in FormatInt (if d < 2 * r \<or> (2 * r = d \<and> odd q) then q + 1 else q))"

fun ref_Sprintf_v :: "go_value \<Rightarrow> string" where
  "ref_Sprintf_v (GoString s) = s"
| "ref_Sprintf_v (GoInt64 i) = FormatInt i"
| "ref_Sprintf_v (GoFloat64 f) = ref_Sprintf_0f f"
| "ref_Sprintf_v (GoBool b) = (if b then ''true'' else ''false'')"
| "ref_Sprintf_v GoNil = ''<nil>''"
| "ref_Sprintf_v (GoSlice xs) = ''['' @ Join (map ref_Sprintf_v xs) '' '' @ '']''"
| "ref_Sprintf_v (GoMap kvs) =
     ''map['' @ Join (map (\<lambda>kv. fst kv @ '':'' @ ref_Sprintf_v (snd kv)) kvs) '' '' @ '']''"

fun ref_Sprintf_v_av :: "AttributeValue \<Rightarrow> string" where
  "ref_Sprintf_v_av (AttributeValueMemberBOOL b) = ''&{'' @ (if b then ''true'' else ''false'') @ '' {}}''"
| "ref_Sprintf_v_av AttributeValueMemberNULL = ''&{true {}}''"
| "ref_Sprintf_v_av (AttributeValueMemberS s) = ''&{'' @ s @ '' {}}''"
| "ref_Sprintf_v_av (AttributeValueMemberN s) = ''&{'' @ s @ '' {}}''"
| "ref_Sprintf_v_av (AttributeValueMemberOther s) = s"
| "ref_Sprintf_v_av _ = ''&{[] {}}''"

text \<open>
  The attribute codec on one value.  A number is decoded into a \<open>float64\<close> when the
  target is an \<open>interface{}\<close> (the decoder's default, \<open>UseNumber\<close> unset).
\<close>

fun encode_value :: "go_value \<Rightarrow> AttributeValue" where
  "encode_value (GoString s) = AttributeValueMemberS s"
| "encode_value (GoInt64 i) = AttributeValueMemberN (FormatInt i)"
| "encode_value (GoFloat64 f) = AttributeValueMemberN (ref_Sprintf_0f f)"
| "encode_value (GoBool b) = AttributeValueMemberBOOL b"
| "encode_value GoNil = AttributeValueMemberNULL"
| "encode_value (GoSlice xs) = AttributeValueMemberL (map encode_value xs)"
| "encode_value (GoMap kvs) = AttributeValueMemberM (map (\<lambda>kv. (fst kv, encode_value (snd kv))) kvs)"

fun decode_value :: "AttributeValue \<Rightarrow> go_value" where
  "decode_value (AttributeValueMemberS s) = GoString s"
| "decode_value (AttributeValueMemberN n) =
     GoFloat64 (case decimal_integer n of Some i \<Rightarrow> Float64 i 0 | None \<Rightarrow> Float64 0 0)"
| "decode_value (AttributeValueMemberBOOL b) = GoBool b"
| "decode_value AttributeValueMemberNULL = GoNil"
| "decode_value (AttributeValueMemberL xs) = GoSlice (map decode_value xs)"
| "decode_value (AttributeValueMemberM kvs) = GoMap (map (\<lambda>kv. (fst kv, decode_value (snd kv))) kvs)"
| "decode_value (AttributeValueMemberOther s) = GoString s"

definition ref_MarshalMap :: "gomap \<Rightarrow> error + item" where
  "ref_MarshalMap m = Inr (\<lambda>k. map_option encode_value (m k))"

definition ref_UnmarshalMap :: "item \<Rightarrow> error + gomap" where
  "ref_UnmarshalMap it = Inr (\<lambda>k. map_option decode_value (it k))"

text \<open>
  The attribute codec on a \<open>models.Unit\<close>: the key and bookkeeping fields under their
  attribute names, every descriptive attribute as a string; a number is decoded into
  the struct's \<open>int64\<close> field.
\<close>

definition unit_core_names :: "string set" where
  "unit_core_names = {''id'', ''pk'', ''sk'', ''unitType'', ''createdAt'', ''updatedAt'', ''deletedAt''}"

definition ref_MarshalUnit :: "Unit \<Rightarrow> error + item" where
  "ref_MarshalUnit u =
     Inr ((\<lambda>k. map_option AttributeValueMemberS (u_Attributes u k))
          (''id'' \<mapsto> AttributeValueMemberS (u_ID u),
           ''pk'' \<mapsto> AttributeValueMemberS (u_AccountID u),
           ''sk'' \<mapsto> AttributeValueMemberS (u_SortKey u),
           ''unitType'' \<mapsto> AttributeValueMemberS (u_UnitType u),
           ''createdAt'' \<mapsto> AttributeValueMemberN (FormatInt (u_CreatedAt u)),
           ''updatedAt'' \<mapsto> AttributeValueMemberN (FormatInt (u_UpdatedAt u)),
           ''deletedAt'' \<mapsto> AttributeValueMemberN (FormatInt (u_DeletedAt u))))"

definition string_field :: "item \<Rightarrow> string \<Rightarrow> string" where
  "string_field it k = (case it k of Some (AttributeValueMemberS s) \<Rightarrow> s | _ \<Rightarrow> [])"

definition int_field :: "item \<Rightarrow> string \<Rightarrow> int option" where
  "int_field it k =
     (case it k of
        Some (AttributeValueMemberN n) \<Rightarrow> decimal_integer n
      | _ \<Rightarrow> Some 0)"

definition ref_UnmarshalUnit :: "item \<Rightarrow> error + Unit" where
  "ref_UnmarshalUnit it =
     (case (int_field it ''createdAt'', int_field it ''updatedAt'', int_field it ''deletedAt'') of
        (Some c, Some u, Some d) \<Rightarrow>
          Inr \<lparr>u_ID = string_field it ''id'', u_AccountID = string_field it ''pk'',
               u_UnitType = string_field it ''unitType'', u_SortKey = string_field it ''sk'',
               u_CreatedAt = c, u_UpdatedAt = u, u_DeletedAt = d,
               u_Attributes =
                 (\<lambda>k. if k \<in> unit_core_names then None
                      else (case it k of Some (AttributeValueMemberS s) \<Rightarrow> Some s | _ \<Rightarrow> None))\<rparr>
      | _ \<Rightarrow> Inl (LibError ''unmarshal failed, cannot unmarshal number''))"

text \<open>
  The schema validator, for the embedded document \<open>commercialVehicleType.json\<close>.  The
  reference compiler wraps the text it is given without reading it; the constraints the
  reference validator checks are those of the embedded document, transcribed here: the
  root is an object, \<open>id\<close> and \<open>accountId\<close> are required, no property outside the declared
  ones is allowed (\<open>additionalProperties: false\<close>), and each declared property has the
  type and format below.  The messages are the validator's; where a document violates
  several constraints the validator reports them in no fixed order, and the list below
  is one of the orders.
\<close>

datatype constraint =
    IsString
  | IsStringOrNull
  | IsUuid
  | IsUuidOrNull
  | IsInteger
  | IsArrayOfObjects "string list" "string list"

text \<open>
  The \<open>properties\<close> of the document, in its order.  An \<open>IsArrayOfObjects required declared\<close>
  is an array whose items are objects with the given required and declared properties,
  all of type string, and no other property.
\<close>

definition commercialVehicleType_required :: "string list" where
  "commercialVehicleType_required = [''id'', ''accountId'']"

definition commercialVehicleType_properties :: "(string \<times> constraint) list" where
  "commercialVehicleType_properties =
     [(''id'', IsUuid),
      (''accountId'', IsString),
      (''locationId'', IsUuidOrNull),
      (''suggestedVin'', IsString),
      (''errorCode'', IsString),
      (''possibleValues'', IsString),
      (''additionalErrorText'', IsStringOrNull),
      (''errorText'', IsString),
      (''vehicleDescriptor'', IsString),
      (''destinationMarket'', IsStringOrNull),
      (''make'', IsString),
      (''manufacturerName'', IsString),
      (''model'', IsString),
      (''modelYear'', IsString),
      (''plantCity'', IsString),
      (''series'', IsString),
      (''trim'', IsStringOrNull),
      (''vehicleType'', IsString),
      (''plantCountry'', IsString),
      (''plantCompanyName'', IsStringOrNull),
      (''plantState'', IsStringOrNull),
      (''trim2'', IsStringOrNull),
      (''series2'', IsStringOrNull),
      (''note'', IsString),
      (''basePrice'', IsStringOrNull),
      (''nonLandUse'', IsStringOrNull),
      (''bodyClass'', IsString),
      (''doors'', IsString),
      (''windows'', IsStringOrNull),
      (''wheelBaseType'', IsStringOrNull),
      (''trackWidthInches'', IsStringOrNull),
      (''grossVehicleWeightRatingFrom'', IsString),
      (''bedLengthInches'', IsStringOrNull),
      (''curbWeightPounds'', IsStringOrNull),
      (''wheelBaseInchesFrom'', IsString),
      (''wheelBaseInchesTo'', IsStringOrNull),
      (''grossCombinationWeightRatingFrom'', IsStringOrNull),
      (''grossCombinationWeightRatingTo'', IsStringOrNull),
      (''grossVehicleWeightRatingTo'', IsString),
      (''bedType'', IsString),
      (''cabType'', IsString),
      (''trailerTypeConnection'', IsString),
      (''trailerBodyType'', IsString),
      (''trailerLengthFeet'', IsStringOrNull),
      (''otherTrailerInfo'', IsStringOrNull),
      (''numberOfWheels'', IsStringOrNull),
      (''wheelSizeFrontInches'', IsStringOrNull),
      (''wheelSizeRearInches'', IsStringOrNull),
      (''customMotorcycleType'', IsString),
      (''motorcycleSuspensionType'', IsString),
      (''motorcycleChassisType'', IsString),
      (''otherMotorcycleInfo'', IsStringOrNull),
      (''fuelTankType'', IsStringOrNull),
      (''fuelTankMaterial'', IsStringOrNull),
      (''combinedBrakingSystem'', IsStringOrNull),
      (''wheelieMitigation'', IsStringOrNull),
      (''busLengthFeet'', IsStringOrNull),
      (''busFloorConfigurationType'', IsString),
      (''busType'', IsString),
      (''otherBusInfo'', IsStringOrNull),
      (''entertainmentSystem'', IsStringOrNull),
      (''steeringLocation'', IsStringOrNull),
      (''numberOfSeats'', IsStringOrNull),
      (''numberOfSeatRows'', IsStringOrNull),
      (''transmissionStyle'', IsStringOrNull),
      (''transmissionSpeeds'', IsStringOrNull),
      (''driveType'', IsStringOrNull),
      (''axles'', IsStringOrNull),
      (''axleConfiguration'', IsStringOrNull),
      (''brakeSystemType'', IsStringOrNull),
      (''brakeSystemDescription'', IsStringOrNull),
      (''otherBatteryInfo'', IsStringOrNull),
      (''batteryType'', IsStringOrNull),
      (''numberOfBatteryCellsPerModule'', IsStringOrNull),
      (''batteryCurrentAmpsFrom'', IsStringOrNull),
      (''batteryVoltageVoltsFrom'', IsStringOrNull),
      (''batteryEnergyKwhFrom'', IsStringOrNull),
      (''evDriveUnit'', IsStringOrNull),
      (''batteryCurrentAmpsTo'', IsStringOrNull),
      (''batteryVoltageVoltsTo'', IsStringOrNull),
      (''batteryEnergyKwhTo'', IsStringOrNull),
      (''numberOfBatteryModulesPerPack'', IsStringOrNull),
      (''numberOfBatteryPacksPerVehicle'', IsStringOrNull),
      (''chargerLevel'', IsStringOrNull),
      (''chargerPowerKw'', IsStringOrNull),
      (''engineNumberOfCylinders'', IsString),
      (''displacementCc'', IsString),
      (''displacementCi'', IsString),
      (''displacementL'', IsString),
      (''engineStrokeCycles'', IsStringOrNull),
      (''engineModel'', IsStringOrNull),
      (''enginePowerKw'', IsStringOrNull),
      (''fuelTypePrimary'', IsString),
      (''valveTrainDesign'', IsStringOrNull),
      (''engineConfiguration'', IsStringOrNull),
      (''fuelTypeSecondary'', IsStringOrNull),
      (''fuelDeliveryFuelInjectionType'', IsStringOrNull),
      (''engineBrakeHpFrom'', IsString),
      (''coolingType'', IsStringOrNull),
      (''engineBrakeHpTo'', IsStringOrNull),
      (''electrificationLevel'', IsStringOrNull),
      (''otherEngineInfo'', IsStringOrNull),
      (''turbo'', IsStringOrNull),
      (''topSpeedMph'', IsStringOrNull),
      (''engineManufacturer'', IsStringOrNull),
      (''pretensioner'', IsStringOrNull),
      (''seatBeltType'', IsString),
      (''otherRestraintSystemInfo'', IsString),
      (''curtainAirBagLocations'', IsStringOrNull),
      (''seatCushionAirBagLocations'', IsStringOrNull),
      (''frontAirBagLocations'', IsString),
      (''kneeAirBagLocations'', IsStringOrNull),
      (''sideAirBagLocations'', IsStringOrNull),
      (''antiLockBrakingSystem'', IsStringOrNull),
      (''electronicStabilityControl'', IsStringOrNull),
      (''tractionControl'', IsStringOrNull),
      (''tirePressureMonitoringSystemType'', IsStringOrNull),
      (''activeSafetySystemNote'', IsStringOrNull),
      (''autoReverseSystemForWindowsAndSunroofs'', IsStringOrNull),
      (''automaticPedestrianAlertingSound'', IsStringOrNull),
      (''eventDataRecorder'', IsStringOrNull),
      (''keylessIgnition'', IsStringOrNull),
      (''saeAutomationLevelFrom'', IsStringOrNull),
      (''saeAutomationLevelTo'', IsStringOrNull),
      (''adaptiveCruiseControl'', IsStringOrNull),
      (''crashImminentBraking'', IsStringOrNull),
      (''forwardCollisionWarning'', IsStringOrNull),
      (''dynamicBrakeSupport'', IsStringOrNull),
      (''pedestrianAutomaticEmergencyBraking'', IsStringOrNull),
      (''blindSpotWarning'', IsStringOrNull),
      (''laneDepartureWarning'', IsStringOrNull),
      (''laneKeepingAssistance'', IsStringOrNull),
      (''blindSpotIntervention'', IsStringOrNull),
      (''laneCenteringAssistance'', IsStringOrNull),
      (''backupCamera'', IsStringOrNull),
      (''parkingAssist'', IsStringOrNull),
      (''rearCrossTrafficAlert'', IsStringOrNull),
      (''rearAutomaticEmergencyBraking'', IsStringOrNull),
      (''automaticCrashNotification'', IsStringOrNull),
      (''daytimeRunningLight'', IsStringOrNull),
      (''headlampLightSource'', IsStringOrNull),
      (''semiautomaticHeadlampBeamSwitching'', IsStringOrNull),
      (''adaptiveDrivingBeam'', IsStringOrNull),
      (''createdAt'', IsInteger),
      (''updatedAt'', IsInteger),
      (''deletedAt'', IsInteger),
      (''extendedAttributes'', (IsArrayOfObjects [''attributeName'', ''attributeValue''] [''attributeName'', ''attributeValue''])),
      (''acesAttributes'', (IsArrayOfObjects [''attributeName'', ''attributeValue'', ''attributeKey''] [''attributeName'', ''attributeValue'', ''attributeKey'']))]"

text \<open>The JSON type the validator reports for a Go value handed over by \<open>NewGoLoader\<close>.\<close>

fun json_type :: "go_value \<Rightarrow> string" where
  "json_type (GoString s) = ''string''"
| "json_type (GoInt64 i) = ''integer''"
| "json_type (GoFloat64 (Float64 m e)) =
     (if 0 \<le> e \<or> m mod 2 ^ nat (- e) = 0 then ''integer'' else ''number'')"
| "json_type (GoBool b) = ''boolean''"
| "json_type GoNil = ''null''"
| "json_type (GoSlice xs) = ''array''"
| "json_type (GoMap kvs) = ''object''"

definition invalid_type :: "string \<Rightarrow> string \<Rightarrow> go_value \<Rightarrow> string" where
  "invalid_type field expected v =
     field @ '': Invalid type. Expected: '' @ expected @ '', given: '' @ json_type v"

text \<open>
  The format \<open>uuid\<close>: five groups of 8, 4, 4, 4 and 12 hexadecimal digits of either
  case, separated by hyphens.
\<close>

definition is_uuid :: "string \<Rightarrow> bool" where
  "is_uuid s =
     (case split (CHR ''-'') s of
        [a, b, c, d, e] \<Rightarrow>
          length a = 8 \<and> length b = 4 \<and> length c = 4 \<and> length d = 4 \<and> length e = 12 \<and>
          list_all (\<lambda>x. x \<in> set ''0123456789abcdefABCDEF'') (a @ b @ c @ d @ e)
      | _ \<Rightarrow> False)"

definition uuid_mismatch :: "string \<Rightarrow> string" where
  "uuid_mismatch field = field @ '': Does not match format '' @ [CHR 0x27] @ ''uuid'' @ [CHR 0x27]"

text \<open>One item of an array property, at the position named by \<open>field\<close>.\<close>

definition check_item :: "string \<Rightarrow> string list \<Rightarrow> string list \<Rightarrow> go_value \<Rightarrow> string list" where
  "check_item field required declared v =
     (case v of
        GoMap kvs \<Rightarrow>
          map (\<lambda>k. field @ '': '' @ k @ '' is required'')
            (filter (\<lambda>k. k \<notin> set (map fst kvs)) required)
          @ map (\<lambda>k. field @ '': Additional property '' @ k @ '' is not allowed'')
              (filter (\<lambda>k. k \<notin> set declared) (map fst kvs))
          @ concat (map (\<lambda>kv. case snd kv of
                                 GoString _ \<Rightarrow> []
                               | x \<Rightarrow> [invalid_type (field @ ''.'' @ fst kv) ''string'' x])
                      (filter (\<lambda>kv. fst kv \<in> set declared) kvs))
      | _ \<Rightarrow> [invalid_type field ''object'' v])"

text \<open>One declared property that the document carries.\<close>

definition check_property :: "string \<Rightarrow> constraint \<Rightarrow> go_value \<Rightarrow> string list" where
  "check_property field c v =
     (case c of
        IsString \<Rightarrow>
          (case v of GoString _ \<Rightarrow> [] | _ \<Rightarrow> [invalid_type field ''string'' v])
      | IsStringOrNull \<Rightarrow>
          (case v of GoString _ \<Rightarrow> [] | GoNil \<Rightarrow> [] | _ \<Rightarrow> [invalid_type field ''[string,null]'' v])
      | IsUuid \<Rightarrow>
          (case v of
             GoString s \<Rightarrow> if is_uuid s then [] else [uuid_mismatch field]
           | _ \<Rightarrow> [invalid_type field ''string'' v])
      | IsUuidOrNull \<Rightarrow>
          (case v of
             GoString s \<Rightarrow> if is_uuid s then [] else [uuid_mismatch field]
           | GoNil \<Rightarrow> []
           | _ \<Rightarrow> [invalid_type field ''[string,null]'' v])
      | IsInteger \<Rightarrow>
          (if json_type v = ''integer'' then [] else [invalid_type field ''integer'' v])
      | IsArrayOfObjects required declared \<Rightarrow>
          (case v of
             GoSlice xs \<Rightarrow>
               concat (map (\<lambda>i. check_item (field @ ''.'' @ FormatInt (int i)) required declared (xs ! i))
                         [0..<length xs])
           | _ \<Rightarrow> [invalid_type field ''array'' v]))"

definition ref_Validate :: "Schema \<Rightarrow> gomap \<Rightarrow> error + string list" where
  "ref_Validate s doc =
     Inr (map (\<lambda>k. ''(root): '' @ k @ '' is required'')
            (filter (\<lambda>k. doc k = None) commercialVehicleType_required)
          @ map (\<lambda>k. ''(root): Additional property '' @ k @ '' is not allowed'')
              (filter (\<lambda>k. k \<notin> set (map fst commercialVehicleType_properties))
                 (sorted_list_of_set (dom doc)))
          @ concat (map (\<lambda>p. case doc (fst p) of
                                None \<Rightarrow> []
                              | Some v \<Rightarrow> check_property (fst p) (snd p) v)
                      commercialVehicleType_properties))"

text \<open>
  The reference environment.  The text of the embedded document is not read by any
  function of the model (the compiler wraps it, the validator above carries its
  constraints), so a short text stands in its place.
\<close>

definition ref_env :: env where
  "ref_env =
     \<lparr>base64_EncodeToString = b64_encode,
      base64_DecodeString = b64_decode,
      json_Marshal = ref_json_Marshal,
      json_Unmarshal = ref_json_Unmarshal,
      strconv_ParseFloat = ref_ParseFloat,
      fmt_Sprintf_0f = ref_Sprintf_0f,
      fmt_Sprintf_v = ref_Sprintf_v,
      fmt_Sprintf_v_av = ref_Sprintf_v_av,
      attributevalue_MarshalMap = ref_MarshalMap,
      attributevalue_UnmarshalMap = ref_UnmarshalMap,
      attributevalue_MarshalUnit = ref_MarshalUnit,
      attributevalue_UnmarshalUnit = ref_UnmarshalUnit,
      gojsonschema_NewSchema = (\<lambda>doc. Inr (CompiledSchema doc)),
      gojsonschema_Validate = ref_Validate,
      commercialVehicleTypeSchema = ''{}''\<rparr>"

section \<open>Example inputs\<close>

text \<open>
  A last evaluated key as the repository tests build it, its JSON text and its token.
\<close>

definition example_key :: item where
  "example_key =
     [''pk'' \<mapsto> AttributeValueMemberS ''account-123'',
      ''sk'' \<mapsto> AttributeValueMemberS ''commercialVehicleType#550e8400'',
      ''createdAt'' \<mapsto> AttributeValueMemberN ''1640995200'']"

definition example_json :: string where
  \<open>example_json =
     ''{"createdAt":"1640995200","pk":"account-123","sk":"commercialVehicleType#550e8400"}''\<close>

definition example_token :: string where
  "example_token =
     ''eyJjcmVhdGVkQXQiOiIxNjQwOTk1MjAwIiwicGsiOiJhY2NvdW50LTEyMyIsInNrIjoiY29tbWVyY2lhbFZlaGljbGVUeXBlIzU1MGU4NDAwIn0=''"

text \<open>
  A unit of the supported type and a payload, a store without rows, and a world that
  holds them: heap cell 0 is the unit's own data map.
\<close>

definition example_data :: gomap where
  "example_data = [''make'' \<mapsto> GoString ''Honda'']"

definition example_unit :: DynamicUnit where
  "example_unit =
     \<lparr>ID = ''550e8400-e29b-41d4-a716-446655440000'', AccountID = ''acct-1'',
      UnitType = ''commercialVehicleType'', CreatedAt = 0, UpdatedAt = 0, DeletedAt = 0,
      Data = Some 0, schema = None\<rparr>"

definition empty_store :: dynamodb where
  "empty_store = \<lparr>rows = [], calls = [], outage = None\<rparr>"

definition example_world :: world where
  "example_world = \<lparr>w_heap = [example_data], w_cache = Map.empty, w_db = empty_store\<rparr>"

text \<open>
  The same unit in the fixed-schema variant; a payload that violates the schema; a store
  whose only row is the unit's, soft-deleted.
\<close>

definition example_fixed_unit :: Unit where
  "example_fixed_unit =
     \<lparr>u_ID = ''550e8400-e29b-41d4-a716-446655440000'', u_AccountID = ''acct-1'',
      u_UnitType = ''commercialVehicleType'', u_SortKey = [], u_CreatedAt = 0,
      u_UpdatedAt = 0, u_DeletedAt = 0, u_Attributes = [''make'' \<mapsto> ''Honda'']\<rparr>"

definition invalid_world :: world where
  "invalid_world =
     \<lparr>w_heap = [[''make'' \<mapsto> GoInt64 1998]], w_cache = Map.empty, w_db = empty_store\<rparr>"

definition deleted_row :: item where
  "deleted_row =
     [''pk'' \<mapsto> AttributeValueMemberS ''acct-1'',
      ''sk'' \<mapsto> AttributeValueMemberS ''commercialVehicleType#550e8400-e29b-41d4-a716-446655440000'',
      ''id'' \<mapsto> AttributeValueMemberS ''550e8400-e29b-41d4-a716-446655440000'',
      ''unitType'' \<mapsto> AttributeValueMemberS ''commercialVehicleType'',
      ''createdAt'' \<mapsto> AttributeValueMemberN ''1700000000'',
      ''updatedAt'' \<mapsto> AttributeValueMemberN ''1700000100'',
      ''deletedAt'' \<mapsto> AttributeValueMemberN ''1700000100'',
      ''make'' \<mapsto> AttributeValueMemberS ''Honda'']"

definition deleted_store :: dynamodb where
  "deleted_store =
     \<lparr>rows = [((''acct-1'', ''commercialVehicleType#550e8400-e29b-41d4-a716-446655440000''),
               deleted_row)],
      calls = [], outage = None\<rparr>"

definition deleted_world :: world where
  "deleted_world = \<lparr>w_heap = [example_data], w_cache = Map.empty, w_db = deleted_store\<rparr>"

text \<open>
  A fixed-schema table whose only row is soft-deleted.
\<close>

definition deleted_fixed_row :: item where
  "deleted_fixed_row =
     [''pk'' \<mapsto> AttributeValueMemberS ''acct-1'',
      ''sk'' \<mapsto> AttributeValueMemberS ''550e8400-e29b-41d4-a716-446655440000#commercialVehicleType'',
      ''id'' \<mapsto> AttributeValueMemberS ''550e8400-e29b-41d4-a716-446655440000'',
      ''unitType'' \<mapsto> AttributeValueMemberS ''commercialVehicleType'',
      ''createdAt'' \<mapsto> AttributeValueMemberN ''1700000000'',
      ''updatedAt'' \<mapsto> AttributeValueMemberN ''1700000100'',
      ''deletedAt'' \<mapsto> AttributeValueMemberN ''1700000100'',
      ''make'' \<mapsto> AttributeValueMemberS ''Honda'']"

definition deleted_fixed_world :: world where
  "deleted_fixed_world =
     \<lparr>w_heap = [], w_cache = Map.empty,
      w_db = \<lparr>rows = [((''acct-1'', ''550e8400-e29b-41d4-a716-446655440000#commercialVehicleType''),
                        deleted_fixed_row)],
              calls = [], outage = None\<rparr>\<rparr>"


text \<open>
  A key map with a string attribute, outside \<open>pk\<close> and \<open>sk\<close>, whose text reads as a
  number; its JSON text and its token.
\<close>

definition numeric_id_key :: item where
  "numeric_id_key =
     [''pk'' \<mapsto> AttributeValueMemberS ''account-123'',
      ''sk'' \<mapsto> AttributeValueMemberS ''commercialVehicleType#12345'',
      ''id'' \<mapsto> AttributeValueMemberS ''12345'']"

definition numeric_id_json :: string where
  \<open>numeric_id_json =
     ''{"id":"12345","pk":"account-123","sk":"commercialVehicleType#12345"}''\<close>

definition numeric_id_token :: string where
  "numeric_id_token =
     ''eyJpZCI6IjEyMzQ1IiwicGsiOiJhY2NvdW50LTEyMyIsInNrIjoiY29tbWVyY2lhbFZlaGljbGVUeXBlIzEyMzQ1In0=''"

text \<open>The reference environment with a schema compiler that fails.\<close>

definition failing_compiler_env :: env where
  "failing_compiler_env =
     ref_env\<lparr>gojsonschema_NewSchema := (\<lambda>doc. Inl (LibError ''schema compilation failed''))\<rparr>"


section \<open>Sort keys\<close>

lemma dropWhile_first_sep:
  "sep \<notin> set a \<Longrightarrow> dropWhile (\<lambda>c. c \<noteq> sep) (a @ sep # b) = sep # b"
  by (induction a) auto

lemma takeWhile_first_sep:
  "sep \<notin> set a \<Longrightarrow> takeWhile (\<lambda>c. c \<noteq> sep) (a @ sep # b) = a"
  by (induction a) auto

lemma SplitN2_first_sep:
  "sep \<notin> set a \<Longrightarrow> SplitN2 sep (a @ sep # b) = [a, b]"
  by (simp add: SplitN2_def dropWhile_first_sep takeWhile_first_sep)

lemma append_sep_inject:
  fixes sep :: char
  assumes "sep \<notin> set a" "sep \<notin> set a'" "a @ sep # b = a' @ sep # b'"
  shows "a = a' \<and> b = b'"
proof -
  have "[a, b] = SplitN2 sep (a @ sep # b)"
    using SplitN2_first_sep [OF assms(1), of b] by (rule sym)
  also have "\<dots> = SplitN2 sep (a' @ sep # b')"
    by (simp only: assms(3))
  also have "\<dots> = [a', b']"
    using assms(2) by (rule SplitN2_first_sep)
  finally show ?thesis by simp
qed

text \<open>
  C7 (as amended).  When the unit type holds no \<open>#\<close>, splitting the sort key at its first
  \<open>#\<close> gives back the unit type and the identifier, and two units whose unit types
  hold no \<open>#\<close> have the same sort key only if they agree on unit type and identifier.
\<close>

theorem sort_key_reconstructible:
  assumes "CHR ''#'' \<notin> set (UnitType du)"
  shows "SplitN2 (CHR ''#'') (GetSortKey du) = [UnitType du, ID du] \<and>
         (CHR ''#'' \<notin> set (UnitType du') \<and> GetSortKey du' = GetSortKey du
            \<longrightarrow> UnitType du' = UnitType du \<and> ID du' = ID du)"
proof
  show "SplitN2 (CHR ''#'') (GetSortKey du) = [UnitType du, ID du]"
    using assms by (simp add: GetSortKey_def SplitN2_first_sep)
next
  show "CHR ''#'' \<notin> set (UnitType du') \<and> GetSortKey du' = GetSortKey du
          \<longrightarrow> UnitType du' = UnitType du \<and> ID du' = ID du"
  proof
    assume h: "CHR ''#'' \<notin> set (UnitType du') \<and> GetSortKey du' = GetSortKey du"
    then have "UnitType du' @ CHR ''#'' # ID du' = UnitType du @ CHR ''#'' # ID du"
      by (simp add: GetSortKey_def)
    with h assms show "UnitType du' = UnitType du \<and> ID du' = ID du"
      using append_sep_inject [of "CHR ''#''" "UnitType du'" "UnitType du" "ID du'" "ID du"]
      by blast
  qed
qed

theorem sort_key_reconstructible_witness:
  "CHR ''#'' \<notin> set ''commercialVehicleType'' \<and>
   SplitN2 (CHR ''#'')
     (GetSortKey \<lparr>ID = ''test-id-123'', AccountID = ''account-456'',
        UnitType = ''commercialVehicleType'', CreatedAt = 0, UpdatedAt = 0, DeletedAt = 0,
        Data = None, schema = None\<rparr>)
   = [''commercialVehicleType'', ''test-id-123''] \<and>
   (CHR ''#'' \<notin> set ''commercialVehicleType'' \<and>
    GetSortKey \<lparr>ID = ''test-id-123'', AccountID = ''account-789'',
        UnitType = ''commercialVehicleType'', CreatedAt = 5, UpdatedAt = 5, DeletedAt = 0,
        Data = None, schema = None\<rparr>
    = GetSortKey \<lparr>ID = ''test-id-123'', AccountID = ''account-456'',
        UnitType = ''commercialVehicleType'', CreatedAt = 0, UpdatedAt = 0, DeletedAt = 0,
        Data = None, schema = None\<rparr>)"
  using sort_key_reconstructible
    [of "\<lparr>ID = ''test-id-123'', AccountID = ''account-456'',
        UnitType = ''commercialVehicleType'', CreatedAt = 0, UpdatedAt = 0, DeletedAt = 0,
        Data = None, schema = None\<rparr>"
        "\<lparr>ID = ''test-id-123'', AccountID = ''account-789'',
        UnitType = ''commercialVehicleType'', CreatedAt = 5, UpdatedAt = 5, DeletedAt = 0,
        Data = None, schema = None\<rparr>"]
  by (simp add: GetSortKey_def)

text \<open>
  C7 as stated fails: a unit type may hold a \<open>#\<close>.  The units \<open>(a#b, c)\<close> and
  \<open>(a, b#c)\<close> have the same sort key \<open>a#b#c\<close>, and splitting it at the first \<open>#\<close> gives
  \<open>a\<close>, not \<open>a#b\<close>.
\<close>

theorem sort_key_collision_counterexample:
  "GetSortKey \<lparr>ID = ''c'', AccountID = ''acct-1'', UnitType = ''a#b'',
       CreatedAt = 0, UpdatedAt = 0, DeletedAt = 0, Data = None, schema = None\<rparr>
   = GetSortKey \<lparr>ID = ''b#c'', AccountID = ''acct-1'', UnitType = ''a'',
       CreatedAt = 0, UpdatedAt = 0, DeletedAt = 0, Data = None, schema = None\<rparr> \<and>
   SplitN2 (CHR ''#'')
     (GetSortKey \<lparr>ID = ''c'', AccountID = ''acct-1'', UnitType = ''a#b'',
        CreatedAt = 0, UpdatedAt = 0, DeletedAt = 0, Data = None, schema = None\<rparr>)
   = [''a'', ''b#c'']"
  by (simp add: GetSortKey_def SplitN2_def)

section \<open>List limit\<close>



section \<open>Pagination codec: round trip and boundaries\<close>

lemma retype_flatten:
  assumes "case v of
             AttributeValueMemberS s \<Rightarrow>
               k = ''pk'' \<or> k = ''sk'' \<or> (\<exists>e. strconv_ParseFloat E s = Inl e)
           | AttributeValueMemberN n \<Rightarrow>
               k \<noteq> ''pk'' \<and> k \<noteq> ''sk'' \<and> (\<exists>f. strconv_ParseFloat E n = Inr f)
           | _ \<Rightarrow> False"
  shows "retypeField E k (flattenAttribute E v) = v"
  using assms by (cases v) auto

text \<open>
  The condition is exact: an attribute that violates it does not come back as itself.
\<close>

lemma retype_flatten_exact:
  "retypeField E k (flattenAttribute E v) = v \<longleftrightarrow>
     (case v of
        AttributeValueMemberS s \<Rightarrow>
          k = ''pk'' \<or> k = ''sk'' \<or> (\<exists>e. strconv_ParseFloat E s = Inl e)
      | AttributeValueMemberN n \<Rightarrow>
          k \<noteq> ''pk'' \<and> k \<noteq> ''sk'' \<and> (\<exists>f. strconv_ParseFloat E n = Inr f)
      | _ \<Rightarrow> False)"
  by (cases v) (auto split: sum.splits)

text \<open>
  C1.  Take a key map in which every attribute named \<open>pk\<close> or \<open>sk\<close> is a string
  attribute, and every other attribute is either a number attribute whose text
  \<open>strconv.ParseFloat\<close> accepts or a string attribute whose text it rejects.  When
  \<open>encoding/json\<close> and \<open>encoding/base64\<close> carry the flattened map without loss, decoding
  the token of the key map gives the key map back: the same attribute names, values,
  and string or number members.  (The token stores every value as a JSON string, and the
  decoder makes a number attribute of every value outside \<open>pk\<close> and \<open>sk\<close> that parses as
  a number, so the restriction on string attributes cannot be dropped.)
\<close>

theorem pagination_token_roundtrip:
  assumes typed: "\<forall>k v. lastKey k = Some v \<longrightarrow>
            (case v of
               AttributeValueMemberS s \<Rightarrow>
                 k = ''pk'' \<or> k = ''sk'' \<or> (\<exists>e. strconv_ParseFloat E s = Inl e)
             | AttributeValueMemberN n \<Rightarrow>
                 k \<noteq> ''pk'' \<and> k \<noteq> ''sk'' \<and> (\<exists>f. strconv_ParseFloat E n = Inr f)
             | _ \<Rightarrow> False)"
    and marshal: "json_Marshal E (\<lambda>k. map_option (flattenAttribute E) (lastKey k)) = Inr jsonBytes"
    and unmarshal: "json_Unmarshal E jsonBytes = Inr (\<lambda>k. map_option (flattenAttribute E) (lastKey k))"
    and base64: "base64_DecodeString E (base64_EncodeToString E jsonBytes) = Inr jsonBytes"
    and nonempty: "base64_EncodeToString E jsonBytes \<noteq> []"
  shows "encodePaginationToken E (Some lastKey) = Inr (base64_EncodeToString E jsonBytes) \<and>
         decodePaginationToken E (base64_EncodeToString E jsonBytes) = Inr (Some lastKey)"
proof
  show "encodePaginationToken E (Some lastKey) = Inr (base64_EncodeToString E jsonBytes)"
    by (simp add: encodePaginationToken_def marshal)
next
  have "(\<lambda>k. map_option (retypeField E k) (map_option (flattenAttribute E) (lastKey k))) = lastKey"
  proof
    fix k
    show "map_option (retypeField E k) (map_option (flattenAttribute E) (lastKey k)) = lastKey k"
    proof (cases "lastKey k")
      case None
      then show ?thesis by simp
    next
      case (Some v)
      with typed have "retypeField E k (flattenAttribute E v) = v"
        by (intro retype_flatten) blast
      with Some show ?thesis by simp
    qed
  qed
  then show "decodePaginationToken E (base64_EncodeToString E jsonBytes) = Inr (Some lastKey)"
    by (simp add: decodePaginationToken_def nonempty base64 unmarshal)
qed

lemma example_token_encode: "b64_encode example_json = example_token"
  unfolding example_json_def example_token_def by code_simp

lemma example_token_decode: "b64_decode example_token = Inr example_json"
  unfolding example_json_def example_token_def by code_simp

lemma example_json_pieces:
  "split (CHR 0x22) example_json =
     [''{'', ''createdAt'', '':'', ''1640995200'', '','', ''pk'', '':'', ''account-123'', '','',
      ''sk'', '':'', ''commercialVehicleType#550e8400'', ''}'']"
  unfolding example_json_def by simp

lemma example_json_pairs:
  "json_pairs [''createdAt'', '':'', ''1640995200'', '','', ''pk'', '':'', ''account-123'', '','',
      ''sk'', '':'', ''commercialVehicleType#550e8400'', ''}'']
   = Some [(''createdAt'', ''1640995200''), (''pk'', ''account-123''),
           (''sk'', ''commercialVehicleType#550e8400'')]"
  by code_simp

lemma example_json_unmarshal:
  "ref_json_Unmarshal example_json =
     Inr (\<lambda>k. map_option (flattenAttribute ref_env) (example_key k))"
proof -
  have ne: "example_json \<noteq> ''null''" "example_json \<noteq> ''{}''"
    by (simp_all add: example_json_def)
  show ?thesis
    by (auto simp add: ref_json_Unmarshal_def ne example_json_pieces example_json_pairs
          example_key_def simp del: json_pairs.simps)
qed

lemma example_key_names:
  "sorted_list_of_set {''pk'', ''sk'', ''createdAt''} = [''createdAt'', ''pk'', ''sk'']"
  by code_simp

lemma example_key_dom:
  "dom (\<lambda>k. map_option (flattenAttribute E) (example_key k)) = {''pk'', ''sk'', ''createdAt''}"
  by (auto simp: example_key_def split: if_splits)

lemma example_json_marshal:
  "ref_json_Marshal (\<lambda>k. map_option (flattenAttribute ref_env) (example_key k)) = Inr example_json"
proof -
  have "json_members (\<lambda>k. map_option (flattenAttribute ref_env) (example_key k))
          [''createdAt'', ''pk'', ''sk'']
        = Some [json_quote ''createdAt'' @ '':'' @ json_quote ''1640995200'',
                json_quote ''pk'' @ '':'' @ json_quote ''account-123'',
                json_quote ''sk'' @ '':'' @ json_quote ''commercialVehicleType#550e8400'']"
    by (simp add: example_key_def json_plain_def)
  then show ?thesis
    by (simp add: ref_json_Marshal_def example_key_dom example_key_names example_json_def
          json_quote_def)
qed

theorem pagination_token_roundtrip_witness:
  "encodePaginationToken ref_env (Some example_key) = Inr example_token \<and>
   decodePaginationToken ref_env example_token = Inr (Some example_key)"
proof -
  have typed: "\<forall>k v. example_key k = Some v \<longrightarrow>
            (case v of
               AttributeValueMemberS s \<Rightarrow>
                 k = ''pk'' \<or> k = ''sk'' \<or> (\<exists>e. strconv_ParseFloat ref_env s = Inl e)
             | AttributeValueMemberN n \<Rightarrow>
                 k \<noteq> ''pk'' \<and> k \<noteq> ''sk'' \<and> (\<exists>f. strconv_ParseFloat ref_env n = Inr f)
             | _ \<Rightarrow> False)"
    by (auto simp: example_key_def ref_env_def ref_ParseFloat_def decimal_integer_def
          split: if_splits)
  have m: "json_Marshal ref_env (\<lambda>k. map_option (flattenAttribute ref_env) (example_key k))
             = Inr example_json"
    using example_json_marshal by (simp add: ref_env_def)
  have u: "json_Unmarshal ref_env example_json
             = Inr (\<lambda>k. map_option (flattenAttribute ref_env) (example_key k))"
    using example_json_unmarshal by (simp add: ref_env_def)
  have t: "base64_EncodeToString ref_env example_json = example_token"
    by (simp add: ref_env_def example_token_encode)
  have b: "base64_DecodeString ref_env (base64_EncodeToString ref_env example_json)
             = Inr example_json"
    by (simp add: ref_env_def example_token_encode example_token_decode)
  have n: "base64_EncodeToString ref_env example_json \<noteq> []"
    by (simp add: t example_token_def)
  show ?thesis
    using pagination_token_roundtrip [OF typed m u b n] by (simp only: t)
qed

text \<open>
  A string attribute under a name other than \<open>pk\<close> and \<open>sk\<close> whose text
  \<open>strconv.ParseFloat\<close> accepts does not survive the round trip: the key map below has
  the string attribute \<open>id = "12345"\<close>, and decoding its token gives the number attribute
  \<open>id = 12345\<close>.
\<close>

lemma numeric_id_token_encode: "b64_encode numeric_id_json = numeric_id_token"
  unfolding numeric_id_json_def numeric_id_token_def by code_simp

lemma numeric_id_token_decode: "b64_decode numeric_id_token = Inr numeric_id_json"
  unfolding numeric_id_json_def numeric_id_token_def by code_simp

lemma numeric_id_json_pieces:
  "split (CHR 0x22) numeric_id_json =
     [''{'', ''id'', '':'', ''12345'', '','', ''pk'', '':'', ''account-123'', '','',
      ''sk'', '':'', ''commercialVehicleType#12345'', ''}'']"
  unfolding numeric_id_json_def by simp

lemma numeric_id_json_pairs:
  "json_pairs [''id'', '':'', ''12345'', '','', ''pk'', '':'', ''account-123'', '','',
      ''sk'', '':'', ''commercialVehicleType#12345'', ''}'']
   = Some [(''id'', ''12345''), (''pk'', ''account-123''),
           (''sk'', ''commercialVehicleType#12345'')]"
  by code_simp

lemma numeric_id_json_unmarshal:
  "ref_json_Unmarshal numeric_id_json =
     Inr (\<lambda>k. map_option (flattenAttribute ref_env) (numeric_id_key k))"
proof -
  have ne: "numeric_id_json \<noteq> ''null''" "numeric_id_json \<noteq> ''{}''"
    by (simp_all add: numeric_id_json_def)
  show ?thesis
    by (auto simp add: ref_json_Unmarshal_def ne numeric_id_json_pieces numeric_id_json_pairs
          numeric_id_key_def simp del: json_pairs.simps)
qed

lemma numeric_id_key_names:
  "sorted_list_of_set {''pk'', ''sk'', ''id''} = [''id'', ''pk'', ''sk'']"
  by code_simp

lemma numeric_id_key_dom:
  "dom (\<lambda>k. map_option (flattenAttribute E) (numeric_id_key k)) = {''pk'', ''sk'', ''id''}"
  by (auto simp: numeric_id_key_def split: if_splits)

lemma numeric_id_json_marshal:
  "ref_json_Marshal (\<lambda>k. map_option (flattenAttribute ref_env) (numeric_id_key k))
   = Inr numeric_id_json"
proof -
  have "json_members (\<lambda>k. map_option (flattenAttribute ref_env) (numeric_id_key k))
          [''id'', ''pk'', ''sk'']
        = Some [json_quote ''id'' @ '':'' @ json_quote ''12345'',
                json_quote ''pk'' @ '':'' @ json_quote ''account-123'',
                json_quote ''sk'' @ '':'' @ json_quote ''commercialVehicleType#12345'']"
    by (simp add: numeric_id_key_def json_plain_def)
  then show ?thesis
    by (simp add: ref_json_Marshal_def numeric_id_key_dom numeric_id_key_names
          numeric_id_json_def json_quote_def)
qed

lemma numeric_id_retyped:
  "(\<lambda>k. map_option (retypeField ref_env k)
           (map_option (flattenAttribute ref_env) (numeric_id_key k)))
   = numeric_id_key(''id'' \<mapsto> AttributeValueMemberN ''12345'')"
  by (rule ext)
     (simp add: numeric_id_key_def ref_env_def ref_ParseFloat_def decimal_integer_def)

theorem numeric_string_retyped_counterexample:
  "numeric_id_key ''id'' = Some (AttributeValueMemberS ''12345'') \<and>
   encodePaginationToken ref_env (Some numeric_id_key) = Inr numeric_id_token \<and>
   decodePaginationToken ref_env numeric_id_token
     = Inr (Some (numeric_id_key(''id'' \<mapsto> AttributeValueMemberN ''12345''))) \<and>
   decodePaginationToken ref_env numeric_id_token \<noteq> Inr (Some numeric_id_key)"
proof -
  have k: "numeric_id_key ''id'' = Some (AttributeValueMemberS ''12345'')"
    by (simp add: numeric_id_key_def)
  have e: "encodePaginationToken ref_env (Some numeric_id_key) = Inr numeric_id_token"
    using numeric_id_json_marshal
    by (simp add: encodePaginationToken_def ref_env_def numeric_id_token_encode)
  have n: "numeric_id_token \<noteq> []"
    by (simp add: numeric_id_token_def)
  have d: "decodePaginationToken ref_env numeric_id_token
             = Inr (Some (numeric_id_key(''id'' \<mapsto> AttributeValueMemberN ''12345'')))"
  proof -
    have "decodePaginationToken ref_env numeric_id_token
            = Inr (Some (\<lambda>k. map_option (retypeField ref_env k)
                               (map_option (flattenAttribute ref_env) (numeric_id_key k))))"
      using numeric_id_json_unmarshal numeric_id_token_decode n
      by (simp add: decodePaginationToken_def ref_env_def)
    then show ?thesis by (simp only: numeric_id_retyped)
  qed
  have "numeric_id_key(''id'' \<mapsto> AttributeValueMemberN ''12345'') \<noteq> numeric_id_key"
  proof
    assume "numeric_id_key(''id'' \<mapsto> AttributeValueMemberN ''12345'') = numeric_id_key"
    then have "(numeric_id_key(''id'' \<mapsto> AttributeValueMemberN ''12345'')) ''id''
                 = numeric_id_key ''id''"
      by simp
    with k show False by simp
  qed
  with k e d show ?thesis by simp
qed

text \<open>
  C6.  The nil key encodes to the empty token and the empty token decodes to the nil key
  without error; a non-empty token that \<open>base64.StdEncoding.DecodeString\<close> rejects, or
  whose bytes \<open>json.Unmarshal\<close> rejects, decodes to an error that wraps the package's
  error.
\<close>

theorem pagination_codec_boundaries:
  "encodePaginationToken E None = Inr [] \<and>
   decodePaginationToken E [] = Inr None \<and>
   (token \<noteq> [] \<and> base64_DecodeString E token = Inl err \<longrightarrow>
      decodePaginationToken E token = Inl (Wrap ''failed to decode token'' err)) \<and>
   (token' \<noteq> [] \<and> base64_DecodeString E token' = Inr jsonBytes \<and>
    json_Unmarshal E jsonBytes = Inl err' \<longrightarrow>
      decodePaginationToken E token' = Inl (Wrap ''failed to unmarshal token data'' err'))"
  by (simp add: encodePaginationToken_def decodePaginationToken_def)

lemma malformed_base64_decode:
  "b64_decode ''invalid-base64!@#$'' = Inl (LibError ''illegal base64 data'')"
  by code_simp

lemma malformed_json_decode:
  "b64_decode ''aW52YWxpZCBqc29u'' = Inr ''invalid json''"
  by code_simp

theorem pagination_codec_boundaries_witness:
  "encodePaginationToken ref_env None = Inr [] \<and>
   decodePaginationToken ref_env [] = Inr None \<and>
   decodePaginationToken ref_env ''invalid-base64!@#$''
     = Inl (Wrap ''failed to decode token'' (LibError ''illegal base64 data'')) \<and>
   decodePaginationToken ref_env ''aW52YWxpZCBqc29u''
     = Inl (Wrap ''failed to unmarshal token data''
              (LibError ''json: invalid or outside the reference fragment''))"
proof -
  have d1: "base64_DecodeString ref_env ''invalid-base64!@#$'' = Inl (LibError ''illegal base64 data'')"
    by (simp add: ref_env_def malformed_base64_decode)
  have d2: "base64_DecodeString ref_env ''aW52YWxpZCBqc29u'' = Inr ''invalid json''"
    by (simp add: ref_env_def malformed_json_decode)
  have j: "json_Unmarshal ref_env ''invalid json''
             = Inl (LibError ''json: invalid or outside the reference fragment'')"
    by (simp add: ref_env_def ref_json_Unmarshal_def)
  show ?thesis
    using pagination_codec_boundaries
            [of ref_env "''invalid-base64!@#$''" "LibError ''illegal base64 data''"
                "''aW52YWxpZCBqc29u''" "''invalid json''"
                "LibError ''json: invalid or outside the reference fragment''"]
          d1 d2 j
    by simp
qed

section \<open>Schema cache\<close>

lemma loadSchema_cached: "cache t = Some s \<Longrightarrow> loadSchema E cache t = (Inr s, cache)"
  by (simp add: loadSchema_def)

lemma loadSchema_keeps: "cache t = Some s \<Longrightarrow> snd (loadSchema E cache u) t = Some s"
  by (auto simp: loadSchema_def split: option.splits sum.splits)

lemma loadSchemas_keeps: "cache t = Some s \<Longrightarrow> loadSchemas E cache us t = Some s"
  by (induction us arbitrary: cache) (simp_all add: loadSchema_keeps)

lemma loadSchema_dom:
  "dom cache \<subseteq> {''commercialVehicleType''} \<Longrightarrow>
   dom (snd (loadSchema E cache u)) \<subseteq> {''commercialVehicleType''}"
  by (auto simp: loadSchema_def split: option.splits sum.splits if_splits)

lemma loadSchemas_dom:
  "dom cache \<subseteq> {''commercialVehicleType''} \<Longrightarrow>
   dom (loadSchemas E cache us) \<subseteq> {''commercialVehicleType''}"
proof (induction us arbitrary: cache)
  case Nil
  then show ?case by simp
next
  case (Cons u us)
  from Cons.prems have "dom (snd (loadSchema E cache u)) \<subseteq> {''commercialVehicleType''}"
    by (rule loadSchema_dom)
  then show ?case by (simp add: Cons.IH)
qed

text \<open>
  C9.  In every cache reached from the empty cache by calls of \<open>loadSchema\<close>: for a unit
  type that is not among the available ones the call returns the "unsupported unit
  type" error and leaves the cache as it was, so no entry is created.  For an available
  unit type without an entry, the call compiles the embedded document: when the compiler
  succeeds, the call returns the compiled schema and stores it under the unit type;
  when it fails, the call returns the wrapped error and stores nothing.  Once stored,
  the schema is what every later call for that unit type returns, whatever calls came
  between and whatever the compiler would answer at that time (the later calls run in
  an arbitrary environment \<open>E'\<close>), and the cache is left as it was.  In general a call that
  finds an entry returns that entry, whichever schema it is, without compiling.
\<close>

theorem loadSchema_contract:
  assumes reach: "cache = loadSchemas E Map.empty history"
  shows "(GetAvailableUnitTypes = Inr types \<and> unitType \<notin> set types \<longrightarrow>
            loadSchema E cache unitType
              = (Inl (New (''unsupported unit type: '' @ unitType)), cache)) \<and>
         (GetAvailableUnitTypes = Inr types \<and> supported \<in> set types \<and>
          cache supported = None \<and>
          gojsonschema_NewSchema E (commercialVehicleTypeSchema E) = Inr s \<longrightarrow>
            loadSchema E cache supported = (Inr s, cache(supported \<mapsto> s)) \<and>
            (\<forall>E' later. loadSchema E' (loadSchemas E' (cache(supported \<mapsto> s)) later) supported
                          = (Inr s, loadSchemas E' (cache(supported \<mapsto> s)) later))) \<and>
         (GetAvailableUnitTypes = Inr types \<and> supported \<in> set types \<and>
          cache supported = None \<and>
          gojsonschema_NewSchema E (commercialVehicleTypeSchema E) = Inl err \<longrightarrow>
            loadSchema E cache supported = (Inl (Wrap ''failed to compile schema'' err), cache)) \<and>
         (held t = Some s' \<longrightarrow> loadSchema E2 held t = (Inr s', held))"
proof (intro conjI impI)
  assume h: "GetAvailableUnitTypes = Inr types \<and> unitType \<notin> set types"
  then have ne: "unitType \<noteq> ''commercialVehicleType''"
    by (auto simp: GetAvailableUnitTypes_def)
  have "dom cache \<subseteq> {''commercialVehicleType''}"
    unfolding reach by (rule loadSchemas_dom) simp
  with ne have "cache unitType = None" by auto
  with ne show "loadSchema E cache unitType
                  = (Inl (New (''unsupported unit type: '' @ unitType)), cache)"
    by (simp add: loadSchema_def)
next
  assume h: "GetAvailableUnitTypes = Inr types \<and> supported \<in> set types \<and>
             cache supported = None \<and>
             gojsonschema_NewSchema E (commercialVehicleTypeSchema E) = Inr s"
  then have "supported = ''commercialVehicleType''"
    by (auto simp: GetAvailableUnitTypes_def)
  with h show "loadSchema E cache supported = (Inr s, cache(supported \<mapsto> s))"
    by (simp add: loadSchema_def)
next
  show "\<forall>E' later. loadSchema E' (loadSchemas E' (cache(supported \<mapsto> s)) later) supported
                     = (Inr s, loadSchemas E' (cache(supported \<mapsto> s)) later)"
  proof (intro allI)
    fix E' later
    have "loadSchemas E' (cache(supported \<mapsto> s)) later supported = Some s"
      by (rule loadSchemas_keeps) simp
    then show "loadSchema E' (loadSchemas E' (cache(supported \<mapsto> s)) later) supported
                 = (Inr s, loadSchemas E' (cache(supported \<mapsto> s)) later)"
      by (rule loadSchema_cached)
  qed
next
  assume h: "GetAvailableUnitTypes = Inr types \<and> supported \<in> set types \<and>
             cache supported = None \<and>
             gojsonschema_NewSchema E (commercialVehicleTypeSchema E) = Inl err"
  then have "supported = ''commercialVehicleType''"
    by (auto simp: GetAvailableUnitTypes_def)
  with h show "loadSchema E cache supported
                 = (Inl (Wrap ''failed to compile schema'' err), cache)"
    by (simp add: loadSchema_def)
next
  assume "held t = Some s'"
  then show "loadSchema E2 held t = (Inr s', held)"
    by (rule loadSchema_cached)
qed

lemma ref_load_unsupported:
  "loadSchemas ref_env Map.empty [''invalidType''] = Map.empty"
  by (simp add: loadSchema_def)

lemma failing_load_unsupported:
  "loadSchemas failing_compiler_env Map.empty [''invalidType''] = Map.empty"
  by (simp add: loadSchema_def)

theorem loadSchema_contract_witness:
  "loadSchema ref_env (loadSchemas ref_env Map.empty [''invalidType'']) ''invalidType''
     = (Inl (New ''unsupported unit type: invalidType''),
        loadSchemas ref_env Map.empty [''invalidType'']) \<and>
   loadSchema ref_env (loadSchemas ref_env Map.empty [''invalidType'']) ''commercialVehicleType''
     = (Inr (CompiledSchema ''{}''),
        (loadSchemas ref_env Map.empty [''invalidType''])
          (''commercialVehicleType'' \<mapsto> CompiledSchema ''{}'')) \<and>
   loadSchema failing_compiler_env
     (loadSchemas failing_compiler_env
        ((loadSchemas ref_env Map.empty [''invalidType''])
           (''commercialVehicleType'' \<mapsto> CompiledSchema ''{}''))
        [''invalidType'', ''commercialVehicleType''])
     ''commercialVehicleType''
     = (Inr (CompiledSchema ''{}''),
        loadSchemas failing_compiler_env
          ((loadSchemas ref_env Map.empty [''invalidType''])
             (''commercialVehicleType'' \<mapsto> CompiledSchema ''{}''))
          [''invalidType'', ''commercialVehicleType'']) \<and>
   loadSchema failing_compiler_env (loadSchemas failing_compiler_env Map.empty [''invalidType''])
     ''commercialVehicleType''
     = (Inl (Wrap ''failed to compile schema'' (LibError ''schema compilation failed'')),
        loadSchemas failing_compiler_env Map.empty [''invalidType'']) \<and>
   loadSchema ref_env [''commercialVehicleType'' \<mapsto> CompiledSchema ''another document'']
     ''commercialVehicleType''
     = (Inr (CompiledSchema ''another document''),
        [''commercialVehicleType'' \<mapsto> CompiledSchema ''another document''])"
proof -
  have a: "GetAvailableUnitTypes = Inr [''commercialVehicleType'']"
    by (simp add: GetAvailableUnitTypes_def)
  have c: "gojsonschema_NewSchema ref_env (commercialVehicleTypeSchema ref_env)
             = Inr (CompiledSchema ''{}'')"
    by (simp add: ref_env_def)
  have c': "gojsonschema_NewSchema failing_compiler_env
              (commercialVehicleTypeSchema failing_compiler_env)
             = Inl (LibError ''schema compilation failed'')"
    by (simp add: failing_compiler_env_def)
  have n: "loadSchemas ref_env Map.empty [''invalidType''] ''commercialVehicleType'' = None"
    by (simp add: loadSchema_def)
  have n': "loadSchemas failing_compiler_env Map.empty [''invalidType''] ''commercialVehicleType''
              = None"
    by (simp add: loadSchema_def)
  have h: "[''commercialVehicleType'' \<mapsto> CompiledSchema ''another document'']
             ''commercialVehicleType'' = Some (CompiledSchema ''another document'')"
    by simp
  have first: "loadSchema ref_env (loadSchemas ref_env Map.empty [''invalidType'']) ''invalidType''
     = (Inl (New ''unsupported unit type: invalidType''),
        loadSchemas ref_env Map.empty [''invalidType'']) \<and>
   loadSchema ref_env (loadSchemas ref_env Map.empty [''invalidType'']) ''commercialVehicleType''
     = (Inr (CompiledSchema ''{}''),
        (loadSchemas ref_env Map.empty [''invalidType''])
          (''commercialVehicleType'' \<mapsto> CompiledSchema ''{}'')) \<and>
   loadSchema failing_compiler_env
     (loadSchemas failing_compiler_env
        ((loadSchemas ref_env Map.empty [''invalidType''])
           (''commercialVehicleType'' \<mapsto> CompiledSchema ''{}''))
        [''invalidType'', ''commercialVehicleType''])
     ''commercialVehicleType''
     = (Inr (CompiledSchema ''{}''),
        loadSchemas failing_compiler_env
          ((loadSchemas ref_env Map.empty [''invalidType''])
             (''commercialVehicleType'' \<mapsto> CompiledSchema ''{}''))
          [''invalidType'', ''commercialVehicleType'']) \<and>
   loadSchema ref_env [''commercialVehicleType'' \<mapsto> CompiledSchema ''another document'']
     ''commercialVehicleType''
     = (Inr (CompiledSchema ''another document''),
        [''commercialVehicleType'' \<mapsto> CompiledSchema ''another document''])"
    using loadSchema_contract
            [OF refl, where E = ref_env and history = "[''invalidType'']"
               and types = "[''commercialVehicleType'']" and unitType = "''invalidType''"
               and supported = "''commercialVehicleType''" and s = "CompiledSchema ''{}''"
               and held = "[''commercialVehicleType'' \<mapsto> CompiledSchema ''another document'']"
               and t = "''commercialVehicleType''" and s' = "CompiledSchema ''another document''"
               and ?E2.0 = ref_env]
          a c n h
    by (simp del: loadSchemas.simps)
  have second: "loadSchema failing_compiler_env
       (loadSchemas failing_compiler_env Map.empty [''invalidType'']) ''commercialVehicleType''
     = (Inl (Wrap ''failed to compile schema'' (LibError ''schema compilation failed'')),
        loadSchemas failing_compiler_env Map.empty [''invalidType''])"
    using loadSchema_contract
            [OF refl, where E = failing_compiler_env and history = "[''invalidType'']"
               and types = "[''commercialVehicleType'']"
               and supported = "''commercialVehicleType''"
               and err = "LibError ''schema compilation failed''",
             THEN conjunct2, THEN conjunct2, THEN conjunct1]
          a c' n'
    by (simp del: loadSchemas.simps)
  from first second show ?thesis by (simp del: loadSchemas.simps)
qed

section \<open>The embedded schema and the documents the model validates\<close>

text \<open>
  \<open>Validate\<close> adds \<open>unitType\<close> to the document it validates; the embedded schema
  declares no such property and allows no additional one.  \<open>ValidateAndSetData\<close>
  validates the caller's map with only \<open>accountId\<close> and \<open>id\<close> added.
\<close>

lemma unitType_undeclared:
  "''unitType'' \<notin> set (map fst commercialVehicleType_properties)"
  by (simp add: commercialVehicleType_properties_def)

lemma ref_Validate_rejects_unitType:
  assumes "finite (dom doc)" "doc ''unitType'' \<noteq> None"
  shows "validation_result (ref_Validate s doc) \<noteq> None"
proof -
  have "''unitType'' \<in> set (sorted_list_of_set (dom doc))"
    using assms by (simp add: domIff)
  with unitType_undeclared
  have "''unitType'' \<in> set (filter (\<lambda>k. k \<notin> set (map fst commercialVehicleType_properties))
                              (sorted_list_of_set (dom doc)))"
    by simp
  then have "filter (\<lambda>k. k \<notin> set (map fst commercialVehicleType_properties))
               (sorted_list_of_set (dom doc)) \<noteq> []"
    by (auto simp: filter_empty_conv)
  then show ?thesis
    by (simp add: validation_result_def ref_Validate_def)
qed

lemma example_id_is_uuid: "is_uuid ''550e8400-e29b-41d4-a716-446655440000''"
  by (simp add: is_uuid_def)

lemma example_payload_names:
  "sorted_list_of_set {''make'', ''accountId'', ''id''} = [''accountId'', ''id'', ''make'']"
  by code_simp

lemma example_payload_valid:
  "ref_Validate s (example_data(''accountId'' \<mapsto> GoString ''acct-1'',
                     ''id'' \<mapsto> GoString ''550e8400-e29b-41d4-a716-446655440000'')) = Inr []"
proof -
  let ?doc = "example_data(''accountId'' \<mapsto> GoString ''acct-1'',
                     ''id'' \<mapsto> GoString ''550e8400-e29b-41d4-a716-446655440000'')"
  have d: "dom ?doc = {''make'', ''accountId'', ''id''}"
    by (auto simp: example_data_def split: if_splits)
  have r: "filter (\<lambda>k. ?doc k = None) commercialVehicleType_required = []"
    by (simp add: commercialVehicleType_required_def)
  have a: "filter (\<lambda>k. k \<notin> set (map fst commercialVehicleType_properties))
             [''accountId'', ''id'', ''make''] = []"
    by (simp add: commercialVehicleType_properties_def)
  have p: "concat (map (\<lambda>p. case ?doc (fst p) of None \<Rightarrow> []
                              | Some v \<Rightarrow> check_property (fst p) (snd p) v)
                      commercialVehicleType_properties) = []"
    by (simp add: commercialVehicleType_properties_def example_data_def check_property_def
          example_id_is_uuid)
  show ?thesis
    by (simp only: ref_Validate_def d example_payload_names r a p) simp
qed

lemma example_document_names:
  "sorted_list_of_set {''make'', ''id'', ''accountId'', ''unitType'', ''createdAt'',
                       ''updatedAt'', ''deletedAt''}
   = [''accountId'', ''createdAt'', ''deletedAt'', ''id'', ''make'', ''unitType'', ''updatedAt'']"
  by code_simp

lemma example_document_rejected:
  "ref_Validate s
     (example_data
        (''id'' \<mapsto> GoString ''550e8400-e29b-41d4-a716-446655440000'',
         ''accountId'' \<mapsto> GoString ''acct-1'',
         ''unitType'' \<mapsto> GoString ''commercialVehicleType'',
         ''createdAt'' \<mapsto> GoInt64 c,
         ''updatedAt'' \<mapsto> GoInt64 u,
         ''deletedAt'' \<mapsto> GoInt64 d))
   = Inr [''(root): Additional property unitType is not allowed'']"
proof -
  let ?doc = "example_data
        (''id'' \<mapsto> GoString ''550e8400-e29b-41d4-a716-446655440000'',
         ''accountId'' \<mapsto> GoString ''acct-1'',
         ''unitType'' \<mapsto> GoString ''commercialVehicleType'',
         ''createdAt'' \<mapsto> GoInt64 c,
         ''updatedAt'' \<mapsto> GoInt64 u,
         ''deletedAt'' \<mapsto> GoInt64 d)"
  have d: "dom ?doc = {''make'', ''id'', ''accountId'', ''unitType'', ''createdAt'',
                       ''updatedAt'', ''deletedAt''}"
    by (auto simp: example_data_def split: if_splits)
  have r: "filter (\<lambda>k. ?doc k = None) commercialVehicleType_required = []"
    by (simp add: commercialVehicleType_required_def)
  have a: "filter (\<lambda>k. k \<notin> set (map fst commercialVehicleType_properties))
             [''accountId'', ''createdAt'', ''deletedAt'', ''id'', ''make'', ''unitType'', ''updatedAt'']
           = [''unitType'']"
    by (simp add: commercialVehicleType_properties_def)
  have p: "concat (map (\<lambda>p. case ?doc (fst p) of None \<Rightarrow> []
                              | Some v \<Rightarrow> check_property (fst p) (snd p) v)
                      commercialVehicleType_properties) = []"
    by (simp add: commercialVehicleType_properties_def example_data_def check_property_def
          example_id_is_uuid)
  show ?thesis
    by (simp only: ref_Validate_def d example_document_names r a p) simp
qed

lemma example_validate:
  "Validate ref_env [example_data] Map.empty (SetTimestamps now example_unit)
   = (Some (New ''data validation failed: (root): Additional property unitType is not allowed''),
      (SetTimestamps now example_unit)\<lparr>schema := Some (CompiledSchema ''{}'')\<rparr>,
      [''commercialVehicleType'' \<mapsto> CompiledSchema ''{}''])"
  by (simp add: Validate_def loadSchema_def ref_env_def SetTimestamps_def example_unit_def
        deref_def validation_result_def example_document_rejected Let_def)

lemma invalid_document_rejected:
  "ref_Validate s
     ([''make'' \<mapsto> GoInt64 1998]
        (''id'' \<mapsto> GoString ''550e8400-e29b-41d4-a716-446655440000'',
         ''accountId'' \<mapsto> GoString ''acct-1'',
         ''unitType'' \<mapsto> GoString ''commercialVehicleType'',
         ''createdAt'' \<mapsto> GoInt64 c,
         ''updatedAt'' \<mapsto> GoInt64 u,
         ''deletedAt'' \<mapsto> GoInt64 d))
   = Inr [''(root): Additional property unitType is not allowed'',
          ''make: Invalid type. Expected: string, given: integer'']"
proof -
  let ?doc = "[''make'' \<mapsto> GoInt64 1998]
        (''id'' \<mapsto> GoString ''550e8400-e29b-41d4-a716-446655440000'',
         ''accountId'' \<mapsto> GoString ''acct-1'',
         ''unitType'' \<mapsto> GoString ''commercialVehicleType'',
         ''createdAt'' \<mapsto> GoInt64 c,
         ''updatedAt'' \<mapsto> GoInt64 u,
         ''deletedAt'' \<mapsto> GoInt64 d)"
  have d: "dom ?doc = {''make'', ''id'', ''accountId'', ''unitType'', ''createdAt'',
                       ''updatedAt'', ''deletedAt''}"
    by (auto split: if_splits)
  have r: "filter (\<lambda>k. ?doc k = None) commercialVehicleType_required = []"
    by (simp add: commercialVehicleType_required_def)
  have a: "filter (\<lambda>k. k \<notin> set (map fst commercialVehicleType_properties))
             [''accountId'', ''createdAt'', ''deletedAt'', ''id'', ''make'', ''unitType'', ''updatedAt'']
           = [''unitType'']"
    by (simp add: commercialVehicleType_properties_def)
  have p: "concat (map (\<lambda>p. case ?doc (fst p) of None \<Rightarrow> []
                              | Some v \<Rightarrow> check_property (fst p) (snd p) v)
                      commercialVehicleType_properties)
           = [''make: Invalid type. Expected: string, given: integer'']"
    by (simp add: commercialVehicleType_properties_def check_property_def
          example_id_is_uuid invalid_type_def)
  show ?thesis
    by (simp only: ref_Validate_def d example_document_names r a p) simp
qed

lemma invalid_validate:
  "Validate ref_env [[''make'' \<mapsto> GoInt64 1998]] Map.empty (SetTimestamps now example_unit)
   = (Some (New ''data validation failed: (root): Additional property unitType is not allowed; make: Invalid type. Expected: string, given: integer''),
      (SetTimestamps now example_unit)\<lparr>schema := Some (CompiledSchema ''{}'')\<rparr>,
      [''commercialVehicleType'' \<mapsto> CompiledSchema ''{}''])"
  by (simp add: Validate_def loadSchema_def ref_env_def SetTimestamps_def example_unit_def
        deref_def validation_result_def invalid_document_rejected Let_def)

lemma Validate_rejected:
  assumes compiled: "gojsonschema_NewSchema E (commercialVehicleTypeSchema E) = Inr s"
    and held: "schema du = None \<or> schema du = Some s" "\<forall>t s'. cache t = Some s' \<longrightarrow> s' = s"
    and fin: "finite (dom (deref h (Data du)))"
    and rejects: "\<forall>doc. finite (dom doc) \<and> doc ''unitType'' \<noteq> None \<longrightarrow>
                    validation_result (gojsonschema_Validate E s doc) \<noteq> None"
  shows "\<exists>err du' cache'. Validate E h cache du = (Some err, du', cache')"
proof -
  let ?doc = "(deref h (Data du))
                (''id'' \<mapsto> GoString (ID du),
                 ''accountId'' \<mapsto> GoString (AccountID du),
                 ''unitType'' \<mapsto> GoString (UnitType du),
                 ''createdAt'' \<mapsto> GoInt64 (CreatedAt du),
                 ''updatedAt'' \<mapsto> GoInt64 (UpdatedAt du),
                 ''deletedAt'' \<mapsto> GoInt64 (DeletedAt du))"
  have "finite (dom ?doc)" using fin by simp
  moreover have "?doc ''unitType'' \<noteq> None" by simp
  ultimately have "validation_result (gojsonschema_Validate E s ?doc) \<noteq> None"
    using rejects by blast
  then obtain err where err: "validation_result (gojsonschema_Validate E s ?doc) = Some err"
    by blast
  have load: "(\<exists>e c. loadSchema E cache (UnitType du) = (Inl e, c)) \<or>
              (\<exists>c. loadSchema E cache (UnitType du) = (Inr s, c))"
    using compiled held(2)
    by (auto simp: loadSchema_def split: option.splits)
  from held(1) show ?thesis
  proof
    assume n: "schema du = None"
    from load show ?thesis
    proof
      assume "\<exists>e c. loadSchema E cache (UnitType du) = (Inl e, c)"
      then show ?thesis by (auto simp: Validate_def n)
    next
      assume "\<exists>c. loadSchema E cache (UnitType du) = (Inr s, c)"
      then show ?thesis using err by (auto simp: Validate_def n Let_def)
    qed
  next
    assume "schema du = Some s"
    then show ?thesis using err by (simp add: Validate_def Let_def)
  qed
qed

lemma SetTimestamps_keeps:
  "schema (SetTimestamps now du) = schema du \<and> Data (SetTimestamps now du) = Data du"
  by (simp add: SetTimestamps_def Let_def)

section \<open>Validation writes into the caller's map\<close>

lemma map_assign_some:
  "map_assign h (Some r) k v = Inr (h[r := (deref h (Some r))(k \<mapsto> v)])"
  by (simp add: map_assign_def)

text \<open>
  C10.  When \<open>ValidateAndSetData\<close> succeeds on the caller's map \<open>r\<close>: the unit's \<open>Data\<close>
  is that very map, no map was allocated and no other map changed, and the caller's
  map now holds the unit's \<open>AccountID\<close> under \<open>accountId\<close> and its \<open>ID\<close> under \<open>id\<close>
  (each when it is non-empty), its other entries being as before.
\<close>

theorem ValidateAndSetData_in_place:
  assumes ok: "ValidateAndSetData E h cache du (Some r) = (None, du', h', cache')"
    and alloc: "r < length h"
  shows "Data du' = Some r \<and>
         length h' = length h \<and>
         (\<forall>r'. r' \<noteq> r \<longrightarrow> h' ! r' = h ! r') \<and>
         (AccountID du \<noteq> [] \<longrightarrow> (h' ! r) ''accountId'' = Some (GoString (AccountID du))) \<and>
         (ID du \<noteq> [] \<longrightarrow> (h' ! r) ''id'' = Some (GoString (ID du))) \<and>
         (\<forall>k. k \<noteq> ''accountId'' \<and> k \<noteq> ''id'' \<longrightarrow> (h' ! r) k = (h ! r) k)"
  using ok alloc
  by (auto simp: ValidateAndSetData_def map_assign_some deref_def Let_def
        split: option.splits sum.splits prod.splits if_splits)

lemma example_ValidateAndSetData:
  "ValidateAndSetData ref_env [Map.empty, example_data] Map.empty example_unit (Some 1)
     = (None,
        example_unit\<lparr>schema := Some (CompiledSchema ''{}''), Data := Some 1\<rparr>,
        [Map.empty,
         example_data(''accountId'' \<mapsto> GoString ''acct-1'',
                      ''id'' \<mapsto> GoString ''550e8400-e29b-41d4-a716-446655440000'')],
        [''commercialVehicleType'' \<mapsto> CompiledSchema ''{}''])"
  by (simp add: ValidateAndSetData_def loadSchema_def ref_env_def example_unit_def
        map_assign_def deref_def validation_result_def example_payload_valid)

theorem ValidateAndSetData_in_place_witness:
  "fst (ValidateAndSetData ref_env [Map.empty, example_data] Map.empty example_unit (Some 1)) = None \<and>
   (1::nat) < length [Map.empty, example_data] \<and>
   AccountID example_unit \<noteq> [] \<and> ID example_unit \<noteq> [] \<and>
   Data (example_unit\<lparr>schema := Some (CompiledSchema ''{}''), Data := Some 1\<rparr>) = Some 1 \<and>
   ([Map.empty,
     example_data(''accountId'' \<mapsto> GoString ''acct-1'',
                  ''id'' \<mapsto> GoString ''550e8400-e29b-41d4-a716-446655440000'')] ! 1) ''accountId''
     = Some (GoString (AccountID example_unit)) \<and>
   ([Map.empty,
     example_data(''accountId'' \<mapsto> GoString ''acct-1'',
                  ''id'' \<mapsto> GoString ''550e8400-e29b-41d4-a716-446655440000'')] ! 1) ''id''
     = Some (GoString (ID example_unit))"
proof -
  have ok: "fst (ValidateAndSetData ref_env [Map.empty, example_data] Map.empty example_unit (Some 1))
              = None"
    by (simp only: example_ValidateAndSetData fst_conv)
  show ?thesis
    using ok ValidateAndSetData_in_place [OF example_ValidateAndSetData]
    by (simp add: example_unit_def)
qed

section \<open>Create fails before the store is called\<close>

text \<open>
  C5.  A \<open>Create\<close> call with a nil unit, with an empty \<open>AccountID\<close> or \<open>UnitType\<close>, or
  whose unit fails \<open>Validate\<close> returns an error, and the store after the call is the
  store before it: the same rows and the same list of received calls, so no call reached
  the client.  The heap of maps is unchanged as well.
\<close>

theorem Create_fail_fast:
  assumes "unit = None \<or>
           (\<exists>u. unit = Some u \<and>
              (AccountID u = [] \<or> UnitType u = [] \<or>
               (\<exists>err u3 cache1.
                  Validate E (w_heap w) (w_cache w)
                    (SetTimestamps now (if ID u = [] then GenerateID uuid u else u))
                  = (Some err, u3, cache1))))"
  shows "fst (Create E uuid now w unit) \<noteq> None \<and>
         w_db (snd (snd (Create E uuid now w unit))) = w_db w \<and>
         w_heap (snd (snd (Create E uuid now w unit))) = w_heap w"
  using assms
  by (auto simp: Create_def Let_def)

theorem Create_fail_fast_witness:
  "fst (Create ref_env ''6ba7b810-9dad-11d1-80b4-00c04fd430c8'' 1700000000 example_world None)
     \<noteq> None \<and>
   w_db (snd (snd (Create ref_env ''6ba7b810-9dad-11d1-80b4-00c04fd430c8'' 1700000000
                     example_world None))) = empty_store \<and>
   fst (Create ref_env ''6ba7b810-9dad-11d1-80b4-00c04fd430c8'' 1700000000 example_world
          (Some (example_unit\<lparr>AccountID := []\<rparr>))) \<noteq> None \<and>
   w_db (snd (snd (Create ref_env ''6ba7b810-9dad-11d1-80b4-00c04fd430c8'' 1700000000
                     example_world (Some (example_unit\<lparr>AccountID := []\<rparr>))))) = empty_store \<and>
   fst (Create ref_env ''6ba7b810-9dad-11d1-80b4-00c04fd430c8'' 1700000000 example_world
          (Some (example_unit\<lparr>UnitType := []\<rparr>))) \<noteq> None \<and>
   w_db (snd (snd (Create ref_env ''6ba7b810-9dad-11d1-80b4-00c04fd430c8'' 1700000000
                     example_world (Some (example_unit\<lparr>UnitType := []\<rparr>))))) = empty_store \<and>
   fst (Create ref_env ''6ba7b810-9dad-11d1-80b4-00c04fd430c8'' 1700000000 invalid_world
          (Some example_unit)) \<noteq> None \<and>
   w_db (snd (snd (Create ref_env ''6ba7b810-9dad-11d1-80b4-00c04fd430c8'' 1700000000
                     invalid_world (Some example_unit)))) = empty_store"
proof -
  have db: "w_db example_world = empty_store" "w_db invalid_world = empty_store"
    by (simp_all add: example_world_def invalid_world_def)
  have h4: "\<exists>u. Some example_unit = Some u \<and>
              (AccountID u = [] \<or> UnitType u = [] \<or>
               (\<exists>err u3 cache1.
                  Validate ref_env (w_heap invalid_world) (w_cache invalid_world)
                    (SetTimestamps 1700000000
                       (if ID u = [] then GenerateID ''6ba7b810-9dad-11d1-80b4-00c04fd430c8'' u else u))
                  = (Some err, u3, cache1)))"
  proof -
    have "ID example_unit \<noteq> []" by (simp add: example_unit_def)
    then show ?thesis
      using invalid_validate [of 1700000000] by (simp add: invalid_world_def)
  qed
  show ?thesis
    using Create_fail_fast [of None ref_env example_world 1700000000
                               "''6ba7b810-9dad-11d1-80b4-00c04fd430c8''"]
          Create_fail_fast [of "Some (example_unit\<lparr>AccountID := []\<rparr>)" ref_env example_world
                               1700000000 "''6ba7b810-9dad-11d1-80b4-00c04fd430c8''"]
          Create_fail_fast [of "Some (example_unit\<lparr>UnitType := []\<rparr>)" ref_env example_world
                               1700000000 "''6ba7b810-9dad-11d1-80b4-00c04fd430c8''"]
          Create_fail_fast [of "Some example_unit" ref_env invalid_world
                               1700000000 "''6ba7b810-9dad-11d1-80b4-00c04fd430c8''", OF disjI2, OF h4]
    by (simp add: db)
qed

section \<open>Update is guarded\<close>

lemma guard_meaning:
  "holds existsAndNotDeleted row =
     (row ''pk'' \<noteq> None \<and> row ''sk'' \<noteq> None \<and>
      (row ''deletedAt'' = None \<or> row ''deletedAt'' = Some (AttributeValueMemberN ''0'')))"
  by (simp add: existsAndNotDeleted_def notDeleted_def)

lemma PutItem_guard_fails:
  assumes "outage db = None" "absent_or_soft_deleted db item"
  shows "PutItem db \<lparr>pi_Item = item, pi_ConditionExpression = Some existsAndNotDeleted\<rparr>
         = (Some ConditionalCheckFailedException,
            db\<lparr>calls := calls db @
                   [PutItemCall \<lparr>pi_Item = item,
                                 pi_ConditionExpression = Some existsAndNotDeleted\<rparr>]\<rparr>)"
  using assms
  by (auto simp: PutItem_def absent_or_soft_deleted_def Let_def guard_meaning
        split: option.splits)

lemma SetTimestamps_fixed_fields:
  "u_ID (SetTimestamps_fixed now u) = u_ID u \<and>
   u_AccountID (SetTimestamps_fixed now u) = u_AccountID u \<and>
   u_UnitType (SetTimestamps_fixed now u) = u_UnitType u \<and>
   u_DeletedAt (SetTimestamps_fixed now u) = u_DeletedAt u"
  by (simp add: SetTimestamps_fixed_def Let_def)

lemma Update_guard_fixed:
  assumes "u_AccountID u \<noteq> []" "u_ID u \<noteq> []" "u_UnitType u \<noteq> []"
    and m: "attributevalue_MarshalUnit E
              ((SetTimestamps_fixed now u)\<lparr>u_SortKey := GetSortKey_fixed (SetTimestamps_fixed now u)\<rparr>)
            = Inr item"
    and s: "outage (w_db w) = None" "absent_or_soft_deleted (w_db w) item"
  shows "Update_fixed E now w (Some u)
         = (Some (New (''unit with id '' @ u_ID u @ '' and type '' @ u_UnitType u
                       @ '' does not exist or is deleted for account '' @ u_AccountID u)),
            Some ((SetTimestamps_fixed now u)\<lparr>u_SortKey := GetSortKey_fixed (SetTimestamps_fixed now u)\<rparr>),
            w\<lparr>w_db := (w_db w)\<lparr>calls := calls (w_db w) @
                        [PutItemCall \<lparr>pi_Item = item,
                                      pi_ConditionExpression = Some existsAndNotDeleted\<rparr>]\<rparr>\<rparr>)"
  using assms(1-3)
  by (simp add: Update_fixed_def Let_def m PutItem_guard_fails [OF s] SetTimestamps_fixed_fields)

lemma PutItem_calls: "calls (snd (PutItem db input)) = calls db @ [PutItemCall input]"
  by (simp add: PutItem_def Let_def split: option.splits)

lemma Update_calls:
  "calls (w_db (snd (snd (Update E now w unit)))) = calls (w_db w) \<or>
   (\<exists>item. calls (w_db (snd (snd (Update E now w unit))))
            = calls (w_db w) @
              [PutItemCall \<lparr>pi_Item = item, pi_ConditionExpression = Some existsAndNotDeleted\<rparr>])"
proof -
  have p: "\<And>db input e db'. PutItem db input = (e, db') \<Longrightarrow> calls db' = calls db @ [PutItemCall input]"
    using PutItem_calls by (metis snd_conv)
  show ?thesis
    by (auto simp: Update_def Let_def dest!: p split: option.splits sum.splits prod.splits)
qed

lemma Update_fixed_calls:
  "calls (w_db (snd (snd (Update_fixed E now w unit)))) = calls (w_db w) \<or>
   (\<exists>item. calls (w_db (snd (snd (Update_fixed E now w unit))))
            = calls (w_db w) @
              [PutItemCall \<lparr>pi_Item = item, pi_ConditionExpression = Some existsAndNotDeleted\<rparr>])"
proof -
  have p: "\<And>db input e db'. PutItem db input = (e, db') \<Longrightarrow> calls db' = calls db @ [PutItemCall input]"
    using PutItem_calls by (metis snd_conv)
  show ?thesis
    by (auto simp: Update_fixed_def Let_def dest!: p split: option.splits sum.splits prod.splits)
qed

lemma Update_validation_stops:
  assumes "AccountID u \<noteq> []" "UnitType u \<noteq> []" "ID u \<noteq> []"
    and v: "Validate E (w_heap w) (w_cache w) (SetTimestamps now u) = (Some err, u3, cache1)"
  shows "Update E now w (Some u)
         = (Some (Wrap ''validation failed'' err), Some u3, w\<lparr>w_cache := cache1\<rparr>)"
  using assms(1-3) by (simp add: Update_def Let_def v)

text \<open>
  C3.  The condition \<open>Update\<close> sends holds of a row exactly when the row has \<open>pk\<close> and
  \<open>sk\<close> and either no \<open>deletedAt\<close> or \<open>deletedAt\<close> equal to the number 0, and a call of
  \<open>Update\<close>, in either variant, sends the client nothing or one \<open>PutItem\<close> under that
  condition.  In the fixed-schema variant, when the key fields are present, the item is
  marshalled, the service is up and the row under the item's key is absent or
  soft-deleted, the result is the "does not exist or is deleted" error that names the
  identifier, the unit type and the account, and the rows of the table are unchanged.
  In the schema-driven variant the write is never reached: \<open>Validate\<close> adds \<open>unitType\<close> to
  the document it validates, the embedded schema declares no such property and allows
  no additional one, so for every unit with its key fields set the result is the
  "validation failed" error and the client receives no call, whatever the state of the
  target row.
\<close>

theorem Update_on_absent_or_deleted_target:
  "holds existsAndNotDeleted row =
     (row ''pk'' \<noteq> None \<and> row ''sk'' \<noteq> None \<and>
      (row ''deletedAt'' = None \<or> row ''deletedAt'' = Some (AttributeValueMemberN ''0''))) \<and>
   (calls (w_db (snd (snd (Update E now w unit)))) = calls (w_db w) \<or>
    (\<exists>item. calls (w_db (snd (snd (Update E now w unit))))
             = calls (w_db w) @
               [PutItemCall \<lparr>pi_Item = item, pi_ConditionExpression = Some existsAndNotDeleted\<rparr>])) \<and>
   (calls (w_db (snd (snd (Update_fixed E now w funit)))) = calls (w_db w) \<or>
    (\<exists>item. calls (w_db (snd (snd (Update_fixed E now w funit))))
             = calls (w_db w) @
               [PutItemCall \<lparr>pi_Item = item, pi_ConditionExpression = Some existsAndNotDeleted\<rparr>])) \<and>
   (AccountID u \<noteq> [] \<and> UnitType u \<noteq> [] \<and> ID u \<noteq> [] \<and>
    gojsonschema_NewSchema E (commercialVehicleTypeSchema E) = Inr s \<and>
    (schema u = None \<or> schema u = Some s) \<and>
    (\<forall>t s'. w_cache w t = Some s' \<longrightarrow> s' = s) \<and>
    finite (dom (deref (w_heap w) (Data u))) \<and>
    (\<forall>doc. finite (dom doc) \<and> doc ''unitType'' \<noteq> None \<longrightarrow>
       validation_result (gojsonschema_Validate E s doc) \<noteq> None)
    \<longrightarrow>
    (\<exists>err. fst (Update E now w (Some u)) = Some (Wrap ''validation failed'' err)) \<and>
    w_db (snd (snd (Update E now w (Some u)))) = w_db w) \<and>
   (u_AccountID fu \<noteq> [] \<and> u_ID fu \<noteq> [] \<and> u_UnitType fu \<noteq> [] \<and>
    attributevalue_MarshalUnit E
      ((SetTimestamps_fixed now fu)\<lparr>u_SortKey := GetSortKey_fixed (SetTimestamps_fixed now fu)\<rparr>)
      = Inr fitem \<and>
    outage (w_db w) = None \<and> absent_or_soft_deleted (w_db w) fitem
    \<longrightarrow>
    Update_fixed E now w (Some fu)
      = (Some (New (''unit with id '' @ u_ID fu @ '' and type '' @ u_UnitType fu
                    @ '' does not exist or is deleted for account '' @ u_AccountID fu)),
         Some ((SetTimestamps_fixed now fu)\<lparr>u_SortKey := GetSortKey_fixed (SetTimestamps_fixed now fu)\<rparr>),
         w\<lparr>w_db := (w_db w)\<lparr>calls := calls (w_db w) @
                     [PutItemCall \<lparr>pi_Item = fitem,
                                   pi_ConditionExpression = Some existsAndNotDeleted\<rparr>]\<rparr>\<rparr>))"
proof (intro conjI impI)
  show "holds existsAndNotDeleted row =
     (row ''pk'' \<noteq> None \<and> row ''sk'' \<noteq> None \<and>
      (row ''deletedAt'' = None \<or> row ''deletedAt'' = Some (AttributeValueMemberN ''0'')))"
    by (rule guard_meaning)
next
  show "calls (w_db (snd (snd (Update E now w unit)))) = calls (w_db w) \<or>
    (\<exists>item. calls (w_db (snd (snd (Update E now w unit))))
             = calls (w_db w) @
               [PutItemCall \<lparr>pi_Item = item, pi_ConditionExpression = Some existsAndNotDeleted\<rparr>])"
    by (rule Update_calls)
next
  show "calls (w_db (snd (snd (Update_fixed E now w funit)))) = calls (w_db w) \<or>
    (\<exists>item. calls (w_db (snd (snd (Update_fixed E now w funit))))
             = calls (w_db w) @
               [PutItemCall \<lparr>pi_Item = item, pi_ConditionExpression = Some existsAndNotDeleted\<rparr>])"
    by (rule Update_fixed_calls)
next
  assume h: "AccountID u \<noteq> [] \<and> UnitType u \<noteq> [] \<and> ID u \<noteq> [] \<and>
    gojsonschema_NewSchema E (commercialVehicleTypeSchema E) = Inr s \<and>
    (schema u = None \<or> schema u = Some s) \<and>
    (\<forall>t s'. w_cache w t = Some s' \<longrightarrow> s' = s) \<and>
    finite (dom (deref (w_heap w) (Data u))) \<and>
    (\<forall>doc. finite (dom doc) \<and> doc ''unitType'' \<noteq> None \<longrightarrow>
       validation_result (gojsonschema_Validate E s doc) \<noteq> None)"
  then obtain err u3 cache1 where
    v: "Validate E (w_heap w) (w_cache w) (SetTimestamps now u) = (Some err, u3, cache1)"
    using Validate_rejected [of E s "SetTimestamps now u" "w_cache w" "w_heap w"]
    by (auto simp: SetTimestamps_keeps)
  from h have r: "Update E now w (Some u)
         = (Some (Wrap ''validation failed'' err), Some u3, w\<lparr>w_cache := cache1\<rparr>)"
    by (intro Update_validation_stops v) simp_all
  show "\<exists>err. fst (Update E now w (Some u)) = Some (Wrap ''validation failed'' err)"
    by (simp add: r)
  show "w_db (snd (snd (Update E now w (Some u)))) = w_db w"
    by (simp add: r)
next
  assume "u_AccountID fu \<noteq> [] \<and> u_ID fu \<noteq> [] \<and> u_UnitType fu \<noteq> [] \<and>
    attributevalue_MarshalUnit E
      ((SetTimestamps_fixed now fu)\<lparr>u_SortKey := GetSortKey_fixed (SetTimestamps_fixed now fu)\<rparr>)
      = Inr fitem \<and>
    outage (w_db w) = None \<and> absent_or_soft_deleted (w_db w) fitem"
  then show "Update_fixed E now w (Some fu)
      = (Some (New (''unit with id '' @ u_ID fu @ '' and type '' @ u_UnitType fu
                    @ '' does not exist or is deleted for account '' @ u_AccountID fu)),
         Some ((SetTimestamps_fixed now fu)\<lparr>u_SortKey := GetSortKey_fixed (SetTimestamps_fixed now fu)\<rparr>),
         w\<lparr>w_db := (w_db w)\<lparr>calls := calls (w_db w) @
                     [PutItemCall \<lparr>pi_Item = fitem,
                                   pi_ConditionExpression = Some existsAndNotDeleted\<rparr>]\<rparr>\<rparr>)"
    using Update_guard_fixed [of fu E now fitem w] by blast
qed

lemma example_fixed_item_key:
  assumes "ref_MarshalUnit
             ((SetTimestamps_fixed now example_fixed_unit)
                \<lparr>u_SortKey := GetSortKey_fixed (SetTimestamps_fixed now example_fixed_unit)\<rparr>)
           = Inr fitem"
  shows "primary_key fitem
         = Some (''acct-1'', ''550e8400-e29b-41d4-a716-446655440000#commercialVehicleType'')"
  using assms
  by (auto simp: ref_MarshalUnit_def SetTimestamps_fixed_def example_fixed_unit_def
        GetSortKey_fixed_def primary_key_def Let_def)

theorem Update_on_absent_or_deleted_target_witness:
  "fst (Update ref_env 1700000000 example_world (Some example_unit))
     = Some (Wrap ''validation failed''
              (New ''data validation failed: (root): Additional property unitType is not allowed'')) \<and>
   w_db (snd (snd (Update ref_env 1700000000 example_world (Some example_unit)))) = empty_store \<and>
   fst (Update ref_env 1700000200 deleted_world (Some example_unit))
     = Some (Wrap ''validation failed''
              (New ''data validation failed: (root): Additional property unitType is not allowed'')) \<and>
   w_db (snd (snd (Update ref_env 1700000200 deleted_world (Some example_unit)))) = deleted_store \<and>
   fst (Update_fixed ref_env 1700000000 example_world (Some example_fixed_unit))
     = Some (New ''unit with id 550e8400-e29b-41d4-a716-446655440000 and type commercialVehicleType does not exist or is deleted for account acct-1'') \<and>
   rows (w_db (snd (snd (Update_fixed ref_env 1700000000 example_world (Some example_fixed_unit))))) = []"
proof -
  obtain fi where fi: "ref_MarshalUnit
      ((SetTimestamps_fixed 1700000000 example_fixed_unit)
         \<lparr>u_SortKey := GetSortKey_fixed (SetTimestamps_fixed 1700000000 example_fixed_unit)\<rparr>) = Inr fi"
    by (simp add: ref_MarshalUnit_def)
  have ids: "AccountID example_unit = ''acct-1''" "UnitType example_unit = ''commercialVehicleType''"
    "ID example_unit = ''550e8400-e29b-41d4-a716-446655440000''"
    "schema example_unit = None" "Data example_unit = Some 0"
    "u_AccountID example_fixed_unit = ''acct-1''"
    "u_UnitType example_fixed_unit = ''commercialVehicleType''"
    "u_ID example_fixed_unit = ''550e8400-e29b-41d4-a716-446655440000''"
    by (simp_all add: example_unit_def example_fixed_unit_def)
  have a3: "absent_or_soft_deleted (w_db example_world) fi"
    by (simp add: absent_or_soft_deleted_def example_fixed_item_key [OF fi] example_world_def
          empty_store_def)
  have w1: "w_heap example_world = [example_data]" "w_cache example_world = Map.empty"
    "outage (w_db example_world) = None" "rows (w_db example_world) = []"
    by (simp_all add: example_world_def empty_store_def)
  have w1': "w_db example_world = empty_store"
    by (simp add: example_world_def)
  have w2: "w_heap deleted_world = [example_data]" "w_cache deleted_world = Map.empty"
    "w_db deleted_world = deleted_store"
    by (simp_all add: deleted_world_def)
  have c: "gojsonschema_NewSchema ref_env (commercialVehicleTypeSchema ref_env)
             = Inr (CompiledSchema ''{}'')"
    by (simp add: ref_env_def)
  have f: "finite (dom (deref [example_data] (Some 0)))"
    by (simp add: deref_def example_data_def)
  have v: "\<forall>doc. finite (dom doc) \<and> doc ''unitType'' \<noteq> None \<longrightarrow>
             validation_result (gojsonschema_Validate ref_env (CompiledSchema ''{}'') doc) \<noteq> None"
    using ref_Validate_rejects_unitType by (simp add: ref_env_def)
  have e1: "fst (Update ref_env 1700000000 example_world (Some example_unit))
     = Some (Wrap ''validation failed''
              (New ''data validation failed: (root): Additional property unitType is not allowed''))"
    using Update_validation_stops [of example_unit ref_env example_world 1700000000]
          example_validate [of 1700000000]
    by (simp add: ids w1)
  have e2: "fst (Update ref_env 1700000200 deleted_world (Some example_unit))
     = Some (Wrap ''validation failed''
              (New ''data validation failed: (root): Additional property unitType is not allowed''))"
    using Update_validation_stops [of example_unit ref_env deleted_world 1700000200]
          example_validate [of 1700000200]
    by (simp add: ids w2)
  have d1: "w_db (snd (snd (Update ref_env 1700000000 example_world (Some example_unit))))
              = empty_store"
    using Update_on_absent_or_deleted_target
            [where E = ref_env and now = 1700000000 and w = example_world and u = example_unit
               and s = "CompiledSchema ''{}''"]
          c f v
    by (simp add: ids w1(1,2) w1')
  have d2: "w_db (snd (snd (Update ref_env 1700000200 deleted_world (Some example_unit))))
              = deleted_store"
    using Update_on_absent_or_deleted_target
            [where E = ref_env and now = 1700000200 and w = deleted_world and u = example_unit
               and s = "CompiledSchema ''{}''"]
          c f v
    by (simp add: ids w2)
  have r3: "Update_fixed ref_env 1700000000 example_world (Some example_fixed_unit)
      = (Some (New (''unit with id '' @ u_ID example_fixed_unit @ '' and type ''
                    @ u_UnitType example_fixed_unit
                    @ '' does not exist or is deleted for account ''
                    @ u_AccountID example_fixed_unit)),
         Some ((SetTimestamps_fixed 1700000000 example_fixed_unit)
                 \<lparr>u_SortKey := GetSortKey_fixed (SetTimestamps_fixed 1700000000 example_fixed_unit)\<rparr>),
         example_world\<lparr>w_db := (w_db example_world)\<lparr>calls := calls (w_db example_world) @
                     [PutItemCall \<lparr>pi_Item = fi,
                                   pi_ConditionExpression = Some existsAndNotDeleted\<rparr>]\<rparr>\<rparr>)"
    using Update_on_absent_or_deleted_target
            [where E = ref_env and now = 1700000000 and w = example_world
               and fu = example_fixed_unit and fitem = fi,
             THEN conjunct2, THEN conjunct2, THEN conjunct2, THEN conjunct2]
          a3 fi
    by (simp add: w1 ids ref_env_def)
  show ?thesis
    by (simp add: e1 e2 d1 d2 r3 ids w1)
qed


section \<open>Reads of absent and soft-deleted units\<close>

lemma FromMap_deletedAt_float:
  assumes "data ''deletedAt'' = Some (GoFloat64 f)"
  shows "DeletedAt (fst (FromMap h du data)) = DeletedAt du"
  using assms
  by (simp add: FromMap_def Let_def make_map_def assert_int64_def
        split: option.splits list.splits)

lemma get_key: "accountID \<noteq> [] \<Longrightarrow> sortKey \<noteq> [] \<Longrightarrow>
  primary_key [''pk'' \<mapsto> AttributeValueMemberS accountID, ''sk'' \<mapsto> AttributeValueMemberS sortKey]
    = Some (accountID, sortKey)"
  by (simp add: primary_key_def)

lemma SplitN2_nonempty: "SplitN2 sep s = [a, b] \<Longrightarrow> s \<noteq> []"
  by (auto simp: SplitN2_def)

text \<open>
  Claim C4, schema-driven variant, soft-deleted item. \<open>GetByKey\<close> decodes the stored item with
  \<open>attributevalue.UnmarshalMap\<close> into a \<open>map[string]interface{}\<close>, where the codec represents
  a number attribute as a \<open>float64\<close>. \<open>FromMap\<close> copies \<open>deletedAt\<close> only from an \<open>int64\<close>, so the
  unit keeps \<open>DeletedAt = 0\<close>, \<open>IsDeleted\<close> is false, and the soft-deleted unit is returned to
  the reader instead of nil.
\<close>

theorem GetByKey_returns_soft_deleted:
  assumes "accountID \<noteq> []"
    and "SplitN2 (CHR ''#'') sortKey = [unitType, unitID]"
    and "outage (w_db w) = None"
    and "map_of (rows (w_db w)) (accountID, sortKey) = Some row"
    and "row ''deletedAt'' = Some (AttributeValueMemberN n)"
    and "attributevalue_UnmarshalMap E row = Inr itemMap"
    and "itemMap ''deletedAt'' = Some (GoFloat64 f)"
    and "loadSchema E (w_cache w) unitType = (Inr s, cache1)"
  shows "\<exists>unit. fst (GetByKey E w accountID sortKey) = Inr (Some unit) \<and> DeletedAt unit = 0"
proof -
  have ne: "sortKey \<noteq> []" using assms(2) by (rule SplitN2_nonempty)
  let ?new = "\<lparr>ID = [], AccountID = [], UnitType = unitType, CreatedAt = 0, UpdatedAt = 0,
               DeletedAt = 0, Data = Some (length (w_heap w)), schema = Some s\<rparr>"
  obtain u1 h2 where fm: "FromMap (w_heap w @ [Map.empty]) ?new itemMap = (u1, h2)"
    by (cases "FromMap (w_heap w @ [Map.empty]) ?new itemMap") auto
  have d: "DeletedAt u1 = 0"
    using FromMap_deletedAt_float [where data = itemMap and f = f
            and h = "w_heap w @ [Map.empty]" and du = ?new] assms(7)
    by (simp add: fm)
  have "fst (GetByKey E w accountID sortKey) = Inr (Some u1)"
    using assms(1,3,4,6,8) ne d
    by (simp add: GetByKey_def GetItem_def Let_def get_key assms(2) NewDynamicUnit_def
          make_map_def IsDeleted_def fm)
  with d show ?thesis by blast
qed

text \<open>
  The soft-deleted row of \<open>deleted_world\<close>, read back through the reference codec.
\<close>

lemma deleted_row_decoded:
  "attributevalue_UnmarshalMap ref_env deleted_row = Inr (\<lambda>k. map_option decode_value (deleted_row k))"
  by (simp add: ref_env_def ref_UnmarshalMap_def)

theorem GetByKey_returns_soft_deleted_witness:
  "map_of (rows (w_db deleted_world))
     (''acct-1'', ''commercialVehicleType#550e8400-e29b-41d4-a716-446655440000'') = Some deleted_row \<and>
   deleted_row ''deletedAt'' = Some (AttributeValueMemberN ''1700000100'') \<and>
   (\<exists>unit. fst (GetByKey ref_env deleted_world ''acct-1''
                  ''commercialVehicleType#550e8400-e29b-41d4-a716-446655440000'')
             = Inr (Some unit) \<and> DeletedAt unit = 0)"
proof -
  have r: "map_of (rows (w_db deleted_world))
     (''acct-1'', ''commercialVehicleType#550e8400-e29b-41d4-a716-446655440000'') = Some deleted_row"
    by (simp add: deleted_world_def deleted_store_def)
  have d: "deleted_row ''deletedAt'' = Some (AttributeValueMemberN ''1700000100'')"
    by (simp add: deleted_row_def)
  have f: "(\<lambda>k. map_option decode_value (deleted_row k)) ''deletedAt''
             = Some (GoFloat64 (Float64 1700000100 0))"
    by (simp add: deleted_row_def decimal_integer_def)
  have s: "SplitN2 (CHR ''#'') ''commercialVehicleType#550e8400-e29b-41d4-a716-446655440000''
             = [''commercialVehicleType'', ''550e8400-e29b-41d4-a716-446655440000'']"
    by (simp add: SplitN2_def)
  have l: "loadSchema ref_env (w_cache deleted_world) ''commercialVehicleType''
             = (Inr (CompiledSchema ''{}''), [''commercialVehicleType'' \<mapsto> CompiledSchema ''{}''])"
    by (simp add: loadSchema_def ref_env_def deleted_world_def)
  have o: "outage (w_db deleted_world) = None"
    by (simp add: deleted_world_def deleted_store_def)
  have a: "''acct-1'' \<noteq> []" by simp
  show ?thesis
    using GetByKey_returns_soft_deleted [OF a s o r d deleted_row_decoded f l] r d
    by blast
qed

lemma GetItem_up:
  assumes "outage db = None" "accountID \<noteq> []" "sortKey \<noteq> []"
  shows "GetItem db [''pk'' \<mapsto> AttributeValueMemberS accountID, ''sk'' \<mapsto> AttributeValueMemberS sortKey]
         = (Inr (map_of (rows db) (accountID, sortKey)),
            db\<lparr>calls := calls db @ [GetItemCall [''pk'' \<mapsto> AttributeValueMemberS accountID,
                                                ''sk'' \<mapsto> AttributeValueMemberS sortKey]]\<rparr>)"
  using assms by (simp add: GetItem_def Let_def get_key)

text \<open>
  The part of the read contract that holds in both variants: with non-empty key parts and
  the service up, an absent item gives nil and no error.
\<close>

theorem GetByKey_absent:
  assumes "outage (w_db w) = None" "accountID \<noteq> []" "unitType \<noteq> []" "unitID \<noteq> []"
  shows "(map_of (rows (w_db w)) (accountID, unitType @ ''#'' @ unitID) = None \<longrightarrow>
            fst (GetByKey E w accountID (unitType @ ''#'' @ unitID)) = Inr None \<and>
            fst (GetByID E w accountID unitType unitID) = Inr None) \<and>
         (map_of (rows (w_db w)) (accountID, unitID @ ''#'' @ unitType) = None \<longrightarrow>
            fst (GetByKey_fixed E w accountID unitID unitType) = Inr None)"
  using assms
  by (simp add: GetByKey_def GetByID_def GetByKey_fixed_def Let_def GetItem_up)

theorem GetByKey_absent_witness:
  "map_of (rows (w_db example_world)) (''acct-1'', ''commercialVehicleType'' @ ''#'' @ ''missing-id'') = None \<and>
   fst (GetByKey ref_env example_world ''acct-1'' (''commercialVehicleType'' @ ''#'' @ ''missing-id'')) = Inr None \<and>
   fst (GetByID ref_env example_world ''acct-1'' ''commercialVehicleType'' ''missing-id'') = Inr None \<and>
   fst (GetByKey_fixed ref_env example_world ''acct-1'' ''missing-id'' ''commercialVehicleType'') = Inr None"
proof -
  have o: "outage (w_db example_world) = None" and r: "rows (w_db example_world) = []"
    by (simp_all add: example_world_def empty_store_def)
  show ?thesis
    using GetByKey_absent [OF o, of "''acct-1''" "''commercialVehicleType''" "''missing-id''" ref_env]
    by (simp add: r)
qed

text \<open>
  The fixed-schema variant decodes into the struct, whose \<open>deletedAt\<close> field is an \<open>int64\<close>:
  there a soft-deleted item gives nil and no error.
\<close>

theorem GetByKey_fixed_hides_soft_deleted:
  assumes "outage (w_db w) = None" "accountID \<noteq> []" "unitType \<noteq> []" "unitID \<noteq> []"
    and "map_of (rows (w_db w)) (accountID, unitID @ ''#'' @ unitType) = Some row"
    and "attributevalue_UnmarshalUnit E row = Inr unit"
    and "u_DeletedAt unit > 0"
  shows "fst (GetByKey_fixed E w accountID unitID unitType) = Inr None"
  using assms
  by (simp add: GetByKey_fixed_def Let_def GetItem_up IsDeleted_fixed_def)

theorem GetByKey_fixed_hides_soft_deleted_witness:
  "u_DeletedAt (case attributevalue_UnmarshalUnit ref_env deleted_fixed_row of Inr u \<Rightarrow> u) = 1700000100 \<and>
   fst (GetByKey_fixed ref_env deleted_fixed_world ''acct-1''
          ''550e8400-e29b-41d4-a716-446655440000'' ''commercialVehicleType'') = Inr None"
proof -
  have d: "int_field deleted_fixed_row ''deletedAt'' = Some 1700000100"
     "int_field deleted_fixed_row ''createdAt'' = Some 1700000000"
     "int_field deleted_fixed_row ''updatedAt'' = Some 1700000100"
    by (simp_all add: int_field_def deleted_fixed_row_def decimal_integer_def)
  obtain u where u: "attributevalue_UnmarshalUnit ref_env deleted_fixed_row = Inr u"
      and du: "u_DeletedAt u = 1700000100"
    by (simp add: ref_env_def ref_UnmarshalUnit_def d)
  have o: "outage (w_db deleted_fixed_world) = None"
    by (simp add: deleted_fixed_world_def)
  have r: "map_of (rows (w_db deleted_fixed_world))
             (''acct-1'', ''550e8400-e29b-41d4-a716-446655440000'' @ ''#'' @ ''commercialVehicleType'')
           = Some deleted_fixed_row"
    by (simp add: deleted_fixed_world_def)
  have p: "u_DeletedAt u > 0" by (simp add: du)
  show ?thesis
    using GetByKey_fixed_hides_soft_deleted [OF o _ _ _ r u p] u du
    by simp
qed


section \<open>Listing an empty partition\<close>

lemma Query_no_rows:
  assumes "outage db = None" "1 \<le> qi_Limit q" "qi_ExclusiveStartKey q = None"
    and "\<forall>r \<in> set (rows db). \<not> (case qi_KeyConditionExpression q of
            PartitionEquals a \<Rightarrow> fst (fst r) = a
          | PartitionEqualsAndSortBeginsWith a p \<Rightarrow> fst (fst r) = a \<and> take (length p) (snd (fst r)) = p)"
  shows "fst (Query db q) = Inr \<lparr>qo_Items = [], qo_LastEvaluatedKey = None\<rparr>"
proof -
  have "filter (\<lambda>r. case qi_KeyConditionExpression q of PartitionEquals a \<Rightarrow> fst (fst r) = a
          | PartitionEqualsAndSortBeginsWith a p \<Rightarrow> fst (fst r) = a \<and> take (length p) (snd (fst r)) = p) (rows db) = []"
    using assms(4) by (simp add: filter_empty_conv)
  then show ?thesis using assms(1-3) by (simp add: Query_def Let_def)
qed

lemma queryLimit_pos: "1 \<le> queryLimit inp"
  by (cases "li_Limit inp") (auto simp: queryLimit_def int32_def)

text \<open>
  Claim C2. A \<open>List\<close> call without a continuation token, on a table with no row in the
  account's partition, completes without error in both variants with count 0. The
  fixed-schema variant returns an allocated slice of length 0; the schema-driven variant
  returns the slice it declared with \<open>var\<close> and never appended to, which is nil.
\<close>

theorem List_items_when_nothing_matches:
  assumes "li_AccountID inp \<noteq> []" "li_NextToken inp = None" "outage (w_db w) = None"
    and "\<forall>r \<in> set (rows (w_db w)). fst (fst r) \<noteq> li_AccountID inp"
  shows "fst (List E w (Some inp)) = Inr \<lparr>lr_Items = None, lr_NextToken = None, lr_Count = 0\<rparr> \<and>
         fst (List_fixed E w (Some inp)) = Inr \<lparr>lr_Items = Some [], lr_NextToken = None, lr_Count = 0\<rparr>"
proof
  let ?kc = "(case li_UnitType inp of None \<Rightarrow> PartitionEquals (li_AccountID inp)
              | Some t \<Rightarrow> if t \<noteq> [] then PartitionEqualsAndSortBeginsWith (li_AccountID inp) (t @ ''#'')
                         else PartitionEquals (li_AccountID inp))"
  let ?q = "\<lparr>qi_KeyConditionExpression = ?kc, qi_FilterExpression = Some notDeleted,
             qi_Limit = queryLimit inp, qi_ExclusiveStartKey = None\<rparr>"
  have s: "withStartKey E inp ?q = Inr ?q"
    using assms(2) by (simp add: withStartKey_def)
  have "fst (Query (w_db w) ?q) = Inr \<lparr>qo_Items = [], qo_LastEvaluatedKey = None\<rparr>"
    using assms(3,4) queryLimit_pos [of inp] by (intro Query_no_rows) (auto split: option.splits)
  then obtain db1 where q: "Query (w_db w) ?q = (Inr \<lparr>qo_Items = [], qo_LastEvaluatedKey = None\<rparr>, db1)"
    by (cases "Query (w_db w) ?q") auto
  show "fst (List E w (Some inp)) = Inr \<lparr>lr_Items = None, lr_NextToken = None, lr_Count = 0\<rparr>"
    using assms(1) by (simp add: List_def Let_def s q withNextToken_def len_def)
next
  let ?q = "\<lparr>qi_KeyConditionExpression = PartitionEquals (li_AccountID inp),
             qi_FilterExpression = Some notDeleted,
             qi_Limit = queryLimit inp, qi_ExclusiveStartKey = None\<rparr>"
  have s: "withStartKey E inp ?q = Inr ?q"
    using assms(2) by (simp add: withStartKey_def)
  have "fst (Query (w_db w) ?q) = Inr \<lparr>qo_Items = [], qo_LastEvaluatedKey = None\<rparr>"
    using assms(3,4) queryLimit_pos [of inp] by (intro Query_no_rows) auto
  then obtain db1 where q: "Query (w_db w) ?q = (Inr \<lparr>qo_Items = [], qo_LastEvaluatedKey = None\<rparr>, db1)"
    by (cases "Query (w_db w) ?q") auto
  show "fst (List_fixed E w (Some inp)) = Inr \<lparr>lr_Items = Some [], lr_NextToken = None, lr_Count = 0\<rparr>"
    using assms(1)
    by (simp add: List_fixed_def Let_def s q withNextToken_def len_def attributevalue_UnmarshalListOfMaps_def)
qed

theorem List_items_when_nothing_matches_witness:
  "li_AccountID \<lparr>li_AccountID = ''acct-2'', li_UnitType = None, li_Limit = None,
       li_NextToken = None, li_Filter = None\<rparr> \<noteq> [] \<and>
   fst (List ref_env deleted_world
          (Some \<lparr>li_AccountID = ''acct-2'', li_UnitType = None, li_Limit = None,
                  li_NextToken = None, li_Filter = None\<rparr>))
     = Inr \<lparr>lr_Items = None, lr_NextToken = None, lr_Count = 0\<rparr> \<and>
   fst (List_fixed ref_env deleted_world
          (Some \<lparr>li_AccountID = ''acct-2'', li_UnitType = None, li_Limit = None,
                  li_NextToken = None, li_Filter = None\<rparr>))
     = Inr \<lparr>lr_Items = Some [], lr_NextToken = None, lr_Count = 0\<rparr>"
proof -
  have o: "outage (w_db deleted_world) = None"
    by (simp add: deleted_world_def deleted_store_def)
  have r: "\<forall>r \<in> set (rows (w_db deleted_world)).
             fst (fst r) \<noteq> li_AccountID \<lparr>li_AccountID = ''acct-2'', li_UnitType = None,
                               li_Limit = None, li_NextToken = None, li_Filter = None\<rparr>"
    by (simp add: deleted_world_def deleted_store_def)
  show ?thesis
    using List_items_when_nothing_matches [OF _ _ o r, of ref_env]
    by simp
qed

end
